theory Spec2Isabelle
  imports Complex_Main "HOL-Library.Word" "HOL-Library.Log_Nat"
begin

section \<open>Identity verification service: data model\<close>

text \<open>
  The embedding follows three TypeScript classes of the repository:
  \<^verbatim>\<open>DocumentVerificationService\<close>, \<^verbatim>\<open>FaceVerificationService\<close> and
  \<^verbatim>\<open>VerificationService\<close>. An optional property is an \<^typ>\<open>'a option\<close>
  (\<^term>\<open>None\<close> is \<^verbatim>\<open>undefined\<close>). The AWS clients (Textract, Rekognition), the clock
  and the date parser of the runtime are collaborators of the code and are parameters of
  the model.

  A JavaScript number is an IEEE 754 double. The finite doubles are real numbers, so a
  number is modelled as a \<^typ>\<open>real\<close>; comparison of doubles is comparison of reals, and
  the two operations the code uses that round, \<^verbatim>\<open>+\<close> and \<^verbatim>\<open>/\<close>, are the exact
  operation followed by rounding to the nearest double, ties to the even significand
  (\<open>double_add\<close>, \<open>double_div\<close> below). NaN and the infinities are not modelled: a result
  beyond the largest double, which is \<^verbatim>\<open>Infinity\<close> in the source, is outside the model.
  The counters of the code (\<^verbatim>\<open>fieldCount++\<close>, \<^verbatim>\<open>factors++\<close>) are small integers,
  exact as doubles, and are natural numbers here.

  A JavaScript string is a sequence of UTF-16 code units. A \<^typ>\<open>string\<close> of the model
  is a sequence of code units below 256 (the Latin-1 range, one \<^typ>\<open>char\<close> each);
  strings with other code units are outside the model.
\<close>

type_synonym Buffer = "8 word list"

text \<open>
  \<^verbatim>\<open>enum VerificationStatus\<close> and \<^verbatim>\<open>enum DocumentType\<close> of the entity file.
  A TypeScript enum is not checked at run time and the services have \<^verbatim>\<open>default:\<close>
  branches for a value outside the enum; \<open>OTHER_TYPE\<close> stands for such a value.
\<close>

datatype VerificationStatus = PENDING | IN_PROGRESS | COMPLETED | FAILED

datatype DocumentType = PASSPORT | DRIVERS_LICENSE | ID_CARD | OTHER_TYPE string

text \<open>
  Exceptions. \<open>BadRequestException\<close> is the only exception class the services throw;
  \<open>Error\<close> is any other exception (an AWS client failure); \<open>NotFoundException\<close> is the
  framework's 404 class, which no service constructs. \<open>message\<close> reads
  \<^verbatim>\<open>error.message\<close>.
\<close>

datatype exception = BadRequestException string | NotFoundException string | Error string

fun message :: "exception \<Rightarrow> string" where
  "message (BadRequestException m) = m"
| "message (NotFoundException m) = m"
| "message (Error m) = m"

text \<open>JavaScript truthiness of an optional string and of an optional number.\<close>

fun truthy_str :: "string option \<Rightarrow> bool" where
  "truthy_str None = False"
| "truthy_str (Some s) = (s \<noteq> [])"

fun truthy_num :: "real option \<Rightarrow> bool" where
  "truthy_num None = False"
| "truthy_num (Some x) = (x \<noteq> 0)"

text \<open>\<^verbatim>\<open>x || 0\<close> on an optional number.\<close>

fun or_zero :: "real option \<Rightarrow> real" where
  "or_zero None = 0"
| "or_zero (Some x) = x"

section \<open>Double arithmetic\<close>

text \<open>
  \<open>binary_exponent x\<close> is the integer \<open>e\<close> with \<open>2^e \<le> |x| < 2^(e+1)\<close>, for \<open>x\<close> not zero.
  A double has a significand of 53 bits and its last bit weighs at least \<open>2^-1074\<close> (the
  subnormal range), so the doubles around \<open>x\<close> are the multiples of \<open>2^q\<close> with
  \<open>q = max (e - 52) (-1074)\<close>; \<open>to_double x\<close> is the nearest of them, the even one at a tie.
\<close>

definition binary_exponent :: "real \<Rightarrow> int" where
  "binary_exponent x =
     (if \<bar>x\<bar> \<ge> 1 then bitlen \<lfloor>\<bar>x\<bar>\<rfloor> - 1 else - bitlen (\<lceil>1 / \<bar>x\<bar>\<rceil> - 1))"

definition round_half_even :: "real \<Rightarrow> int" where
  "round_half_even x =
     (let f = \<lfloor>x\<rfloor>; d = x - of_int f
      in if d < 1 / 2 then f else if 1 / 2 < d then f + 1 else if even f then f else f + 1)"

definition to_double :: "real \<Rightarrow> real" where
  "to_double x =
     (if x = 0 then 0
      else (let q = max (binary_exponent x - 52) (- 1074)
            in if 0 \<le> q then of_int (round_half_even (x / 2 ^ nat q)) * 2 ^ nat q
               else of_int (round_half_even (x * 2 ^ nat (- q))) / 2 ^ nat (- q)))"

text \<open>\<^verbatim>\<open>x + y\<close> and \<^verbatim>\<open>x / y\<close> on doubles.\<close>

definition double_add :: "real \<Rightarrow> real \<Rightarrow> real" where
  "double_add x y = to_double (x + y)"

definition double_div :: "real \<Rightarrow> real \<Rightarrow> real" where
  "double_div x y = to_double (x / y)"

section \<open>Strings\<close>

text \<open>
  \<^verbatim>\<open>String.prototype.toLowerCase\<close> on the code units below 256: the letters \<open>A-Z\<close>
  (65 to 90) and the Latin-1 capitals U+00C0 to U+00DE (192 to 222) except the
  multiplication sign U+00D7 (215) move up by 32; every other code unit stays.
\<close>

definition toLowerCase_char :: "char \<Rightarrow> char" where
  "toLowerCase_char c =
     (let n = (of_char c :: nat)
      in if (65 \<le> n \<and> n \<le> 90) \<or> (192 \<le> n \<and> n \<le> 222 \<and> n \<noteq> 215)
         then char_of (n + 32) else c)"

definition toLowerCase :: "string \<Rightarrow> string" where
  "toLowerCase s = map toLowerCase_char s"

text \<open>\<^verbatim>\<open>Array.prototype.join\<close> with a separator.\<close>

fun join :: "string \<Rightarrow> string list \<Rightarrow> string" where
  "join sep [] = []"
| "join sep [x] = x"
| "join sep (x # y # ys) = x @ sep @ join sep (y # ys)"

section \<open>Document verification service\<close>

text \<open>The part of Textract's \<^verbatim>\<open>AnalyzeID\<close> response that the service reads.\<close>

record AnalyzeIDDetections =
  Text :: "string option"
  Confidence :: "real option"

record IdentityDocumentField =
  Type :: "AnalyzeIDDetections option"
  ValueDetection :: "AnalyzeIDDetections option"

record IdentityDocument =
  IdentityDocumentFields :: "IdentityDocumentField list option"

record AnalyzeIDResponse =
  IdentityDocuments :: "IdentityDocument list option"

text \<open>\<^verbatim>\<open>field.Type?.Text\<close>, \<^verbatim>\<open>field.ValueDetection?.Text\<close>,
  \<^verbatim>\<open>field.ValueDetection?.Confidence\<close>.\<close>

definition type_text :: "IdentityDocumentField \<Rightarrow> string option" where
  "type_text field = (case Type field of None \<Rightarrow> None | Some t \<Rightarrow> Text t)"

definition value_text :: "IdentityDocumentField \<Rightarrow> string option" where
  "value_text field = (case ValueDetection field of None \<Rightarrow> None | Some v \<Rightarrow> Text v)"

definition value_confidence :: "IdentityDocumentField \<Rightarrow> real option" where
  "value_confidence field =
     (case ValueDetection field of None \<Rightarrow> None | Some v \<Rightarrow> Confidence v)"

text \<open>An entry of \<^verbatim>\<open>extractedData\<close>: \<^verbatim>\<open>{ value, confidence }\<close>.\<close>

record ExtractedField =
  field_value :: string
  field_confidence :: "real option"

type_synonym ExtractedData = "string \<rightharpoonup> ExtractedField"

text \<open>The list of fields the two \<^verbatim>\<open>forEach\<close> loops run over
  (\<^verbatim>\<open>document.IdentityDocumentFields?.forEach\<close>: no iteration when absent).\<close>

definition document_fields :: "IdentityDocument \<Rightarrow> IdentityDocumentField list" where
  "document_fields document =
     (case IdentityDocumentFields document of None \<Rightarrow> [] | Some fs \<Rightarrow> fs)"

definition parse_field :: "IdentityDocumentField \<Rightarrow> ExtractedData \<Rightarrow> ExtractedData" where
  "parse_field field acc =
     (if truthy_str (type_text field) \<and> truthy_str (value_text field)
      then acc(toLowerCase (the (type_text field)) \<mapsto>
             \<lparr>field_value = the (value_text field),
              field_confidence = value_confidence field\<rparr>)
      else acc)"

definition parseDocumentFields :: "IdentityDocument \<Rightarrow> ExtractedData" where
  "parseDocumentFields document = fold parse_field (document_fields document) Map.empty"

text \<open>The loop body of \<^verbatim>\<open>calculateConfidenceScore\<close> on the pair
  \<open>(totalConfidence, fieldCount)\<close>.\<close>

definition confidence_step :: "IdentityDocumentField \<Rightarrow> real \<times> nat \<Rightarrow> real \<times> nat" where
  "confidence_step field acc =
     (if truthy_num (value_confidence field)
      then (double_add (fst acc) (the (value_confidence field)), snd acc + 1)
      else acc)"

definition calculateConfidenceScore :: "IdentityDocument \<Rightarrow> real" where
  "calculateConfidenceScore document =
     (let (totalConfidence, fieldCount) = fold confidence_step (document_fields document) (0, 0)
      in if fieldCount > 0 then double_div totalConfidence (real fieldCount) else 0)"

text \<open>\<^verbatim>\<open>getRequiredFields\<close>.\<close>

definition commonFields :: "string list" where
  "commonFields = [''FIRST_NAME'', ''LAST_NAME'', ''DATE_OF_BIRTH'']"

fun getRequiredFields :: "DocumentType \<Rightarrow> string list" where
  "getRequiredFields PASSPORT =
     commonFields @ [''PASSPORT_NUMBER'', ''EXPIRATION_DATE'', ''NATIONALITY'']"
| "getRequiredFields DRIVERS_LICENSE =
     commonFields @ [''LICENSE_NUMBER'', ''EXPIRATION_DATE'', ''STATE'']"
| "getRequiredFields ID_CARD = commonFields @ [''ID_NUMBER'', ''EXPIRATION_DATE'']"
| "getRequiredFields (OTHER_TYPE t) = commonFields"

text \<open>The result of a validator: \<^verbatim>\<open>{ isValid: boolean; reason?: string }\<close>.\<close>

record ValidationResult =
  isValid :: bool
  reason :: "string option"

definition valid :: ValidationResult where
  "valid = \<lparr>isValid = True, reason = None\<rparr>"

definition invalid :: "string \<Rightarrow> ValidationResult" where
  "invalid r = \<lparr>isValid = False, reason = Some r\<rparr>"

text \<open>\<^verbatim>\<open>data[key]?.value\<close>: absent, or the value string of the entry.\<close>

definition value_of :: "ExtractedData \<Rightarrow> string \<Rightarrow> string option" where
  "value_of data k = (case data k of None \<Rightarrow> None | Some e \<Rightarrow> Some (field_value e))"

text \<open>\<^verbatim>\<open>/^[A-Z0-9]{6,9}$/.test(s)\<close>: without the \<^verbatim>\<open>m\<close> flag both anchors are
  the ends of the input, so the whole string is six to nine characters of the class.\<close>

definition upper_or_digit :: "char \<Rightarrow> bool" where
  "upper_or_digit c =
     (let n = (of_char c :: nat) in (65 \<le> n \<and> n \<le> 90) \<or> (48 \<le> n \<and> n \<le> 57))"

definition passport_regex_test :: "string \<Rightarrow> bool" where
  "passport_regex_test s = (6 \<le> length s \<and> length s \<le> 9 \<and> list_all upper_or_digit s)"

definition validatePassport :: "ExtractedData \<Rightarrow> ValidationResult" where
  "validatePassport data =
     (let passportNumber = value_of data ''passport_number'' in
      if \<not> truthy_str passportNumber \<or> \<not> passport_regex_test (the passportNumber)
      then invalid ''Invalid passport number format''
      else valid)"

definition validateDriversLicense :: "ExtractedData \<Rightarrow> ValidationResult" where
  "validateDriversLicense data =
     (let licenseNumber = value_of data ''license_number'' in
      if \<not> truthy_str licenseNumber \<or> length (the licenseNumber) < 5
      then invalid ''Invalid license number format''
      else valid)"

definition validateIdCard :: "ExtractedData \<Rightarrow> ValidationResult" where
  "validateIdCard data =
     (let idNumber = value_of data ''id_number'' in
      if \<not> truthy_str idNumber \<or> length (the idNumber) < 5
      then invalid ''Invalid ID number format''
      else valid)"

text \<open>
  The clock: \<open>now\<close> is \<^verbatim>\<open>new Date()\<close> in milliseconds, \<open>parse\<close> is
  \<^verbatim>\<open>new Date(string)\<close>, \<^term>\<open>None\<close> for an invalid date (every comparison with an
  invalid date is false).
\<close>

record Clock =
  now :: int
  parse :: "string \<Rightarrow> int option"

definition missingFields :: "DocumentType \<Rightarrow> ExtractedData \<Rightarrow> string list" where
  "missingFields documentType extractedData =
     filter (\<lambda>field. \<not> truthy_str (value_of extractedData (toLowerCase field)))
       (getRequiredFields documentType)"

definition expired :: "Clock \<Rightarrow> ExtractedData \<Rightarrow> bool" where
  "expired clock extractedData =
     (truthy_str (value_of extractedData ''expiration_date'') \<and>
      (case parse clock (the (value_of extractedData ''expiration_date'')) of
         None \<Rightarrow> False
       | Some expirationDate \<Rightarrow> expirationDate < now clock))"

text \<open>\<^verbatim>\<open>validateDocumentAuthenticity\<close>. Nothing in its \<^verbatim>\<open>try\<close> block throws on
  values of these types, so the \<^verbatim>\<open>catch\<close> branch has no counterpart here.\<close>

definition validateDocumentAuthenticity ::
    "Clock \<Rightarrow> DocumentType \<Rightarrow> ExtractedData \<Rightarrow> ValidationResult" where
  "validateDocumentAuthenticity clock documentType extractedData =
     (if length (missingFields documentType extractedData) > 0
      then invalid (''Missing required fields: '' @
                    join '', '' (missingFields documentType extractedData))
      else if expired clock extractedData
      then invalid ''Document has expired''
      else (case documentType of
              PASSPORT \<Rightarrow> validatePassport extractedData
            | DRIVERS_LICENSE \<Rightarrow> validateDriversLicense extractedData
            | ID_CARD \<Rightarrow> validateIdCard extractedData
            | OTHER_TYPE t \<Rightarrow> valid))"

text \<open>\<^verbatim>\<open>verifyDocument\<close>. \<open>Textract\<close> is the client's \<^verbatim>\<open>send\<close> on an
  \<^verbatim>\<open>AnalyzeIDCommand\<close>: it throws or returns a response.\<close>

type_synonym Textract = "Buffer \<Rightarrow> exception + AnalyzeIDResponse"

record DocumentResult =
  doc_isValid :: bool
  extractedData :: ExtractedData
  doc_confidenceScore :: real

text \<open>The body of the \<^verbatim>\<open>try\<close> block.\<close>

definition verifyDocument_try ::
    "Textract \<Rightarrow> Clock \<Rightarrow> DocumentType \<Rightarrow> Buffer \<Rightarrow> exception + DocumentResult" where
  "verifyDocument_try textract clock documentType documentBuffer =
     (case textract documentBuffer of
        Inl error \<Rightarrow> Inl error
      | Inr response \<Rightarrow>
          (case IdentityDocuments response of
             None \<Rightarrow> Inl (BadRequestException ''Failed to analyze document'')
           | Some [] \<Rightarrow> Inl (BadRequestException ''Failed to analyze document'')
           | Some (document # rest) \<Rightarrow>
               (let parsed = parseDocumentFields document;
                    validationResult = validateDocumentAuthenticity clock documentType parsed
                in if \<not> isValid validationResult
                   then Inl (BadRequestException
                          (case reason validationResult of None \<Rightarrow> ''Bad Request'' | Some r \<Rightarrow> r))
                   else Inr \<lparr>doc_isValid = True, extractedData = parsed,
                             doc_confidenceScore = calculateConfidenceScore document\<rparr>)))"

text \<open>The \<^verbatim>\<open>catch\<close> wraps whatever was thrown into a new
  \<open>BadRequestException\<close> with the same message.\<close>

definition verifyDocument ::
    "Textract \<Rightarrow> Clock \<Rightarrow> DocumentType \<Rightarrow> Buffer \<Rightarrow> exception + DocumentResult" where
  "verifyDocument textract clock documentType documentBuffer =
     (case verifyDocument_try textract clock documentType documentBuffer of
        Inl error \<Rightarrow> Inl (BadRequestException (message error))
      | Inr result \<Rightarrow> Inr result)"

section \<open>Face verification service\<close>

text \<open>The parts of Rekognition's \<^verbatim>\<open>DetectFaces\<close> and \<^verbatim>\<open>CompareFaces\<close>
  responses that the service reads or passes on. Every property is optional, as in the
  SDK's types.\<close>

record BoundingBox =
  Width :: "real option"
  Height :: "real option"
  Left :: "real option"
  Top :: "real option"

record Landmark =
  LandmarkType :: "string option"
  X :: "real option"
  Y :: "real option"

record ImageQuality =
  Brightness :: "real option"
  Sharpness :: "real option"

record Pose =
  Pitch :: "real option"
  Roll :: "real option"
  Yaw :: "real option"

text \<open>A boolean attribute with its confidence (\<^verbatim>\<open>EyesOpen\<close>, \<^verbatim>\<open>Sunglasses\<close>, ...):
  \<^verbatim>\<open>{ Value?: boolean; Confidence?: number }\<close>.\<close>

record BoolAttribute =
  Value :: "bool option"
  AttrConfidence :: "real option"

record Emotion =
  EmotionType :: "string option"
  EmotionConfidence :: "real option"

record FaceDetail =
  FaceBoundingBox :: "BoundingBox option"
  FaceLandmarks :: "Landmark list option"
  Quality :: "ImageQuality option"
  FacePose :: "Pose option"
  EyesOpen :: "BoolAttribute option"
  MouthOpen :: "BoolAttribute option"
  Eyeglasses :: "BoolAttribute option"
  Sunglasses :: "BoolAttribute option"
  Beard :: "BoolAttribute option"
  Emotions :: "Emotion list option"

record DetectFacesResponse =
  FaceDetails :: "FaceDetail list option"

record ComparedFace =
  ComparedBoundingBox :: "BoundingBox option"
  ComparedLandmarks :: "Landmark list option"
  ComparedQuality :: "ImageQuality option"
  ComparedPose :: "Pose option"

record CompareFacesMatch =
  Similarity :: "real option"
  Face :: "ComparedFace option"

record CompareFacesResponse =
  FaceMatches :: "CompareFacesMatch list option"
  UnmatchedFaces :: "ComparedFace list option"

text \<open>
  The Rekognition client: \<^verbatim>\<open>send\<close> on a \<^verbatim>\<open>DetectFacesCommand\<close> (image,
  attributes) and on a \<^verbatim>\<open>CompareFacesCommand\<close> (source, target, similarity
  threshold, quality filter). Each throws or returns a response. Every service function
  also returns the list of commands it sent, in the order they were issued.
\<close>

record Rekognition =
  detectFaces :: "Buffer \<Rightarrow> string list \<Rightarrow> exception + DetectFacesResponse"
  compareFaces :: "Buffer \<Rightarrow> Buffer \<Rightarrow> real \<Rightarrow> string \<Rightarrow> exception + CompareFacesResponse"

datatype command =
    DetectFacesCommand Buffer "string list"
  | CompareFacesCommand Buffer Buffer real string

definition is_CompareFaces :: "command \<Rightarrow> bool" where
  "is_CompareFaces c = (case c of CompareFacesCommand s t th q \<Rightarrow> True | _ \<Rightarrow> False)"

definition SIMILARITY_THRESHOLD :: real where
  "SIMILARITY_THRESHOLD = 90.0"

definition QUALITY_THRESHOLD :: real where
  "QUALITY_THRESHOLD = 80.0"

text \<open>\<^verbatim>\<open>isQualityAcceptable\<close> and \<^verbatim>\<open>isPoseAcceptable\<close>.\<close>

definition isQualityAcceptable :: "FaceDetail \<Rightarrow> bool" where
  "isQualityAcceptable faceDetails =
     (case Quality faceDetails of
        None \<Rightarrow> False
      | Some quality \<Rightarrow>
          or_zero (Brightness quality) \<ge> 50 \<and> or_zero (Sharpness quality) \<ge> 50)"

definition isPoseAcceptable :: "FaceDetail \<Rightarrow> bool" where
  "isPoseAcceptable faceDetails =
     (case FacePose faceDetails of
        None \<Rightarrow> False
      | Some pose \<Rightarrow>
          \<bar>or_zero (Pitch pose)\<bar> \<le> 20 \<and> \<bar>or_zero (Roll pose)\<bar> \<le> 20 \<and>
          \<bar>or_zero (Yaw pose)\<bar> \<le> 20)"

text \<open>\<^verbatim>\<open>faceDetails.EyesOpen?.Confidence\<close>, \<^verbatim>\<open>faceDetails.Quality?.Brightness\<close>,
  \<^verbatim>\<open>faceDetails.Quality?.Sharpness\<close>, \<^verbatim>\<open>faceDetails.Sunglasses?.Value\<close>.\<close>

definition eyesOpen_confidence :: "FaceDetail \<Rightarrow> real option" where
  "eyesOpen_confidence faceDetails =
     (case EyesOpen faceDetails of None \<Rightarrow> None | Some a \<Rightarrow> AttrConfidence a)"

definition quality_brightness :: "FaceDetail \<Rightarrow> real option" where
  "quality_brightness faceDetails =
     (case Quality faceDetails of None \<Rightarrow> None | Some q \<Rightarrow> Brightness q)"

definition quality_sharpness :: "FaceDetail \<Rightarrow> real option" where
  "quality_sharpness faceDetails =
     (case Quality faceDetails of None \<Rightarrow> None | Some q \<Rightarrow> Sharpness q)"

definition sunglasses_value :: "FaceDetail \<Rightarrow> bool option" where
  "sunglasses_value faceDetails =
     (case Sunglasses faceDetails of None \<Rightarrow> None | Some a \<Rightarrow> Value a)"

text \<open>
  \<^verbatim>\<open>calculateLivenessScore\<close>. \<open>liveness_factors\<close> is the pair of locals
  \<open>(score, factors)\<close> after the five \<^verbatim>\<open>if\<close> statements, which run in the source's
  order; \<open>add_factor\<close> is \<^verbatim>\<open>score += x; factors++\<close>.
\<close>

definition add_factor :: "real \<Rightarrow> real \<times> nat \<Rightarrow> real \<times> nat" where
  "add_factor x acc = (double_add (fst acc) x, snd acc + 1)"

definition liveness_factors :: "FaceDetail \<Rightarrow> real \<times> nat" where
  "liveness_factors faceDetails =
     (let acc0 = (0, 0);
          acc1 = (if truthy_num (eyesOpen_confidence faceDetails)
                  then add_factor (the (eyesOpen_confidence faceDetails)) acc0 else acc0);
          acc2 = (if truthy_num (quality_brightness faceDetails)
                  then add_factor (the (quality_brightness faceDetails)) acc1 else acc1);
          acc3 = (if truthy_num (quality_sharpness faceDetails)
                  then add_factor (the (quality_sharpness faceDetails)) acc2 else acc2);
          acc4 = (if isPoseAcceptable faceDetails then add_factor 100 acc3 else acc3);
          acc5 = (if sunglasses_value faceDetails = Some False
                  then add_factor 100 acc4 else acc4)
      in acc5)"

definition calculateLivenessScore :: "FaceDetail \<Rightarrow> real" where
  "calculateLivenessScore faceDetails =
     (let (score, factors) = liveness_factors faceDetails
      in if factors > 0 then double_div score (real factors) else 0)"

text \<open>\<^verbatim>\<open>detectFaceQuality\<close>: its \<^verbatim>\<open>catch\<close> turns an exception of the client into
  an invalid result carrying the message. It sends one command.\<close>

definition detectFaceQuality :: "Rekognition \<Rightarrow> Buffer \<Rightarrow> ValidationResult \<times> command list" where
  "detectFaceQuality client imageBuffer =
     ((case detectFaces client imageBuffer [''QUALITY'', ''POSE''] of
         Inl error \<Rightarrow> invalid (message error)
       | Inr response \<Rightarrow>
           (case FaceDetails response of
              None \<Rightarrow> invalid ''No face detected in the image''
            | Some [] \<Rightarrow> invalid ''No face detected in the image''
            | Some [faceDetails] \<Rightarrow>
                if \<not> isQualityAcceptable faceDetails
                then invalid ''Image quality is too low''
                else if \<not> isPoseAcceptable faceDetails
                then invalid ''Face pose is not acceptable''
                else valid
            | Some (f1 # f2 # rest) \<Rightarrow> invalid ''Multiple faces detected in the image'')),
      [DetectFacesCommand imageBuffer [''QUALITY'', ''POSE'']])"

text \<open>The results of the two public operations. \<^verbatim>\<open>details\<close> of a face match is
  one of two object shapes.\<close>

datatype MatchDetails =
    NoMatchDetails string nat
  | BestMatchDetails "BoundingBox option" "Landmark list option" "ImageQuality option"
      "Pose option"

record FaceMatchResult =
  isMatch :: bool
  confidence :: real
  details :: MatchDetails

record LivenessDetails =
  d_eyesOpen :: "BoolAttribute option"
  d_mouthOpen :: "BoolAttribute option"
  d_eyeglasses :: "BoolAttribute option"
  d_sunglasses :: "BoolAttribute option"
  d_beard :: "BoolAttribute option"
  d_emotions :: "Emotion list option"
  d_quality :: "ImageQuality option"
  d_pose :: "Pose option"

record LivenessResult =
  isLive :: bool
  liveness_confidence :: real
  liveness_details :: LivenessDetails

text \<open>\<^verbatim>\<open>`${x.reason}`\<close>: an absent reason prints as \<^verbatim>\<open>undefined\<close>.\<close>

definition reason_text :: "ValidationResult \<Rightarrow> string" where
  "reason_text r = (case reason r of None \<Rightarrow> ''undefined'' | Some t \<Rightarrow> t)"

text \<open>What \<^verbatim>\<open>verifyFaceMatch\<close> returns from a comparison response.\<close>

definition match_result :: "CompareFacesResponse \<Rightarrow> FaceMatchResult" where
  "match_result comparison =
     (case FaceMatches comparison of
        None \<Rightarrow>
          \<lparr>isMatch = False, confidence = 0,
           details = NoMatchDetails ''No matching faces found''
             (case UnmatchedFaces comparison of None \<Rightarrow> 0 | Some u \<Rightarrow> length u)\<rparr>
      | Some [] \<Rightarrow>
          \<lparr>isMatch = False, confidence = 0,
           details = NoMatchDetails ''No matching faces found''
             (case UnmatchedFaces comparison of None \<Rightarrow> 0 | Some u \<Rightarrow> length u)\<rparr>
      | Some (bestMatch # rest) \<Rightarrow>
          (let c = or_zero (Similarity bestMatch) in
           \<lparr>isMatch = (c \<ge> SIMILARITY_THRESHOLD), confidence = c,
            details = BestMatchDetails
              (case Face bestMatch of None \<Rightarrow> None | Some f \<Rightarrow> ComparedBoundingBox f)
              (case Face bestMatch of None \<Rightarrow> None | Some f \<Rightarrow> ComparedLandmarks f)
              (case Face bestMatch of None \<Rightarrow> None | Some f \<Rightarrow> ComparedQuality f)
              (case Face bestMatch of None \<Rightarrow> None | Some f \<Rightarrow> ComparedPose f)\<rparr>))"

text \<open>The \<^verbatim>\<open>try\<close> block of \<^verbatim>\<open>verifyFaceMatch\<close>: both quality checks are started
  (\<^verbatim>\<open>Promise.all\<close>; neither rejects), then the comparison is sent only when both are
  valid.\<close>

definition verifyFaceMatch_try ::
    "Rekognition \<Rightarrow> Buffer \<Rightarrow> Buffer \<Rightarrow> (exception + FaceMatchResult) \<times> command list" where
  "verifyFaceMatch_try client documentFaceBuffer selfieFaceBuffer =
     (let (documentFaceQuality, sent1) = detectFaceQuality client documentFaceBuffer;
          (selfieFaceQuality, sent2) = detectFaceQuality client selfieFaceBuffer
      in if \<not> isValid documentFaceQuality
         then (Inl (BadRequestException
                 (''Document face image issue: '' @ reason_text documentFaceQuality)),
               sent1 @ sent2)
         else if \<not> isValid selfieFaceQuality
         then (Inl (BadRequestException
                 (''Selfie image issue: '' @ reason_text selfieFaceQuality)),
               sent1 @ sent2)
         else
           (case compareFaces client documentFaceBuffer selfieFaceBuffer
                   SIMILARITY_THRESHOLD ''HIGH'' of
              Inl error \<Rightarrow> Inl error
            | Inr comparison \<Rightarrow> Inr (match_result comparison),
            sent1 @ sent2 @
            [CompareFacesCommand documentFaceBuffer selfieFaceBuffer
               SIMILARITY_THRESHOLD ''HIGH'']))"

definition verifyFaceMatch ::
    "Rekognition \<Rightarrow> Buffer \<Rightarrow> Buffer \<Rightarrow> (exception + FaceMatchResult) \<times> command list" where
  "verifyFaceMatch client documentFaceBuffer selfieFaceBuffer =
     (case verifyFaceMatch_try client documentFaceBuffer selfieFaceBuffer of
        (Inl error, sent) \<Rightarrow> (Inl (BadRequestException (message error)), sent)
      | (Inr result, sent) \<Rightarrow> (Inr result, sent))"

text \<open>\<^verbatim>\<open>detectLiveness\<close>.\<close>

definition liveness_result :: "FaceDetail \<Rightarrow> LivenessResult" where
  "liveness_result faceDetails =
     (let livenessScore = calculateLivenessScore faceDetails in
      \<lparr>isLive = (livenessScore \<ge> QUALITY_THRESHOLD),
       liveness_confidence = livenessScore,
       liveness_details =
         \<lparr>d_eyesOpen = EyesOpen faceDetails, d_mouthOpen = MouthOpen faceDetails,
          d_eyeglasses = Eyeglasses faceDetails, d_sunglasses = Sunglasses faceDetails,
          d_beard = Beard faceDetails, d_emotions = Emotions faceDetails,
          d_quality = Quality faceDetails, d_pose = FacePose faceDetails\<rparr>\<rparr>)"

definition detectLiveness_try :: "Rekognition \<Rightarrow> Buffer \<Rightarrow> exception + LivenessResult" where
  "detectLiveness_try client selfieBuffer =
     (case detectFaces client selfieBuffer [''ALL''] of
        Inl error \<Rightarrow> Inl error
      | Inr response \<Rightarrow>
          (case FaceDetails response of
             None \<Rightarrow> Inl (BadRequestException ''No face detected in the image'')
           | Some [] \<Rightarrow> Inl (BadRequestException ''No face detected in the image'')
           | Some [faceDetails] \<Rightarrow> Inr (liveness_result faceDetails)
           | Some (f1 # f2 # rest) \<Rightarrow>
               Inl (BadRequestException ''Multiple faces detected in the image'')))"

definition detectLiveness ::
    "Rekognition \<Rightarrow> Buffer \<Rightarrow> (exception + LivenessResult) \<times> command list" where
  "detectLiveness client selfieBuffer =
     ((case detectLiveness_try client selfieBuffer of
         Inl error \<Rightarrow> Inl (BadRequestException (message error))
       | Inr result \<Rightarrow> Inr result),
      [DetectFacesCommand selfieBuffer [''ALL'']])"

section \<open>Verification service (the orchestrator)\<close>

text \<open>
  The entity \<^verbatim>\<open>Verification\<close>. Its primary key is generated by the database on the
  first save of a new entity; the repository is modelled as the list of rows and the key
  of a row is its position, so that a new key is always fresh. The columns
  \<^verbatim>\<open>createdAt\<close> and \<^verbatim>\<open>updatedAt\<close>, which the database maintains and no service
  reads, are left out. Repository operations are assumed not to fail.
\<close>

record Verification =
  userId :: string
  documentType :: DocumentType
  documentData :: "ExtractedData option"
  documentImageUrl :: "string option"
  selfieImageUrl :: "string option"
  faceMatchResult :: "FaceMatchResult option"
  status :: VerificationStatus
  failureReason :: "string option"
  confidenceScore :: "real option"

type_synonym Repository = "Verification list"

text \<open>\<^verbatim>\<open>repository.create({ userId, documentType, status })\<close>.\<close>

definition create :: "string \<Rightarrow> DocumentType \<Rightarrow> VerificationStatus \<Rightarrow> Verification" where
  "create uid dt st =
     \<lparr>userId = uid, documentType = dt, documentData = None, documentImageUrl = None,
      selfieImageUrl = None, faceMatchResult = None, status = st, failureReason = None,
      confidenceScore = None\<rparr>"

text \<open>\<^verbatim>\<open>repository.save\<close> of a new entity (insert; returns the generated key) and of
  an entity that has a key (update).\<close>

definition insert_row :: "Repository \<Rightarrow> Verification \<Rightarrow> nat \<times> Repository" where
  "insert_row repo v = (length repo, repo @ [v])"

definition save :: "Repository \<Rightarrow> nat \<Rightarrow> Verification \<Rightarrow> Repository" where
  "save repo key v = repo[key := v]"

text \<open>\<^verbatim>\<open>repository.findOne({ where: { id } })\<close>: \<^verbatim>\<open>null\<close> when there is no such row.\<close>

definition findOne :: "Repository \<Rightarrow> nat \<Rightarrow> Verification option" where
  "findOne repo key = (if key < length repo then Some (repo ! key) else None)"

text \<open>The \<^verbatim>\<open>catch\<close> block shared by \<^verbatim>\<open>startVerification\<close> and \<^verbatim>\<open>verifyFace\<close>:
  mark the entity failed with the message of the exception, save it, throw the same
  exception again.\<close>

definition fail_with :: "exception \<Rightarrow> Verification \<Rightarrow> Verification" where
  "fail_with error verification =
     verification\<lparr>status := FAILED, failureReason := Some (message error)\<rparr>"

text \<open>
  \<^verbatim>\<open>startVerification\<close>. The \<^verbatim>\<open>try\<close> block returns what it threw or returned,
  the entity as mutated so far, and the repository.
\<close>

definition startVerification_try ::
    "Textract \<Rightarrow> Clock \<Rightarrow> Repository \<Rightarrow> nat \<Rightarrow> Verification \<Rightarrow> DocumentType \<Rightarrow> Buffer
      \<Rightarrow> (exception + unit) \<times> Verification \<times> Repository" where
  "startVerification_try textract clock repo key verification dt documentBuffer =
     (case verifyDocument textract clock dt documentBuffer of
        Inl error \<Rightarrow> (Inl error, verification, repo)
      | Inr documentResult \<Rightarrow>
          (let v1 = verification\<lparr>documentData := Some (extractedData documentResult),
                                 confidenceScore := Some (doc_confidenceScore documentResult)\<rparr>
           in if \<not> doc_isValid documentResult
              then (let v2 = v1\<lparr>status := FAILED,
                                failureReason := Some ''Document verification failed''\<rparr>
                    in (Inl (BadRequestException ''Document verification failed''),
                        v2, save repo key v2))
              else (Inr (), v1, save repo key v1)))"

definition startVerification ::
    "Textract \<Rightarrow> Clock \<Rightarrow> Repository \<Rightarrow> string \<Rightarrow> DocumentType \<Rightarrow> Buffer
      \<Rightarrow> (exception + nat \<times> Verification) \<times> Repository" where
  "startVerification textract clock repo uid dt documentBuffer =
     (let verification = create uid dt IN_PROGRESS;
          (key, repo1) = insert_row repo verification
      in case startVerification_try textract clock repo1 key verification dt documentBuffer of
           (Inr u, v, repo2) \<Rightarrow> (Inr (key, v), repo2)
         | (Inl error, v, repo2) \<Rightarrow> (Inl error, save repo2 key (fail_with error v)))"

text \<open>
  \<^verbatim>\<open>verifyFace\<close>. The document-side image passed to \<^verbatim>\<open>verifyFaceMatch\<close> is the
  empty buffer \<^verbatim>\<open>Buffer.from('')\<close>. The result carries the commands sent to Rekognition.
\<close>

definition verifyFace_try ::
    "Rekognition \<Rightarrow> Repository \<Rightarrow> nat \<Rightarrow> Verification \<Rightarrow> Buffer
      \<Rightarrow> (exception + unit) \<times> Verification \<times> Repository \<times> command list" where
  "verifyFace_try client repo key verification selfieBuffer =
     (case detectLiveness client selfieBuffer of
        (Inl error, sent1) \<Rightarrow> (Inl error, verification, repo, sent1)
      | (Inr livenessResult, sent1) \<Rightarrow>
          if \<not> isLive livenessResult
          then (let v1 = verification\<lparr>status := FAILED,
                                      failureReason := Some ''Liveness check failed''\<rparr>
                in (Inl (BadRequestException ''Liveness check failed''),
                    v1, save repo key v1, sent1))
          else
            (case verifyFaceMatch client [] selfieBuffer of
               (Inl error, sent2) \<Rightarrow> (Inl error, verification, repo, sent1 @ sent2)
             | (Inr matchResult, sent2) \<Rightarrow>
                 (let v1 = verification\<lparr>faceMatchResult := Some matchResult\<rparr>
                  in if \<not> isMatch matchResult
                     then (let v2 = v1\<lparr>status := FAILED,
                                       failureReason := Some ''Face match failed''\<rparr>
                           in (Inl (BadRequestException ''Face match failed''),
                               v2, save repo key v2, sent1 @ sent2))
                     else (let v2 = v1\<lparr>status := COMPLETED\<rparr>
                           in (Inr (), v2, save repo key v2, sent1 @ sent2)))))"

definition verifyFace ::
    "Rekognition \<Rightarrow> Repository \<Rightarrow> nat \<Rightarrow> Buffer
      \<Rightarrow> (exception + nat \<times> Verification) \<times> Repository \<times> command list" where
  "verifyFace client repo verificationId selfieBuffer =
     (case findOne repo verificationId of
        None \<Rightarrow> (Inl (BadRequestException ''Verification not found''), repo, [])
      | Some verification \<Rightarrow>
          (case verifyFace_try client repo verificationId verification selfieBuffer of
             (Inr u, v, repo1, sent) \<Rightarrow> (Inr (verificationId, v), repo1, sent)
           | (Inl error, v, repo1, sent) \<Rightarrow>
               (Inl error, save repo1 verificationId (fail_with error v), sent)))"

text \<open>\<^verbatim>\<open>getVerificationStatus\<close>: a read.\<close>

definition getVerificationStatus :: "Repository \<Rightarrow> nat \<Rightarrow> exception + nat \<times> Verification" where
  "getVerificationStatus repo verificationId =
     (case findOne repo verificationId of
        None \<Rightarrow> Inl (BadRequestException ''Verification not found'')
      | Some verification \<Rightarrow> Inr (verificationId, verification))"

text \<open>
  Sequences of the three operations. A request carries the collaborators as they answer
  during that request; \<open>handle\<close> is the effect of one request on the repository and
  \<open>run\<close> that of a sequence, in order.
\<close>

record World =
  textract :: Textract
  rekognition :: Rekognition
  clock :: Clock

datatype request =
    StartVerification string DocumentType Buffer
  | VerifyFace nat Buffer
  | GetVerificationStatus nat

fun handle :: "World \<Rightarrow> request \<Rightarrow> Repository \<Rightarrow> Repository" where
  "handle w (StartVerification uid dt buf) repo =
     snd (startVerification (textract w) (clock w) repo uid dt buf)"
| "handle w (VerifyFace key buf) repo = fst (snd (verifyFace (rekognition w) repo key buf))"
| "handle w (GetVerificationStatus key) repo = repo"

fun run :: "(World \<times> request) list \<Rightarrow> Repository \<Rightarrow> Repository" where
  "run [] repo = repo"
| "run ((w, r) # rs) repo = run rs (handle w r repo)"

definition terminal :: "VerificationStatus \<Rightarrow> bool" where
  "terminal s = (s = COMPLETED \<or> s = FAILED)"

section \<open>Reference definitions and sample inputs\<close>

text \<open>
  The definitions of this section are not translations of the source. They state, in the
  words of the specification, what the theorems below compare the code with, and they
  name the concrete inputs at which the theorems are evaluated.
\<close>

subsection \<open>Document rules\<close>

text \<open>A field is absent from the extracted data when there is no entry or its value is
  the empty string.\<close>

definition absent :: "ExtractedData \<Rightarrow> string \<Rightarrow> bool" where
  "absent data k = (case data k of None \<Rightarrow> True | Some e \<Rightarrow> field_value e = [])"

text \<open>The required fields as the code has them, each with the key it is looked up under:
  the expiration date is an addition of the three known types, not a common field.\<close>

fun code_required :: "DocumentType \<Rightarrow> (string \<times> string) list" where
  "code_required PASSPORT =
     [(''FIRST_NAME'', ''first_name''), (''LAST_NAME'', ''last_name''),
      (''DATE_OF_BIRTH'', ''date_of_birth''), (''PASSPORT_NUMBER'', ''passport_number''),
      (''EXPIRATION_DATE'', ''expiration_date''), (''NATIONALITY'', ''nationality'')]"
| "code_required DRIVERS_LICENSE =
     [(''FIRST_NAME'', ''first_name''), (''LAST_NAME'', ''last_name''),
      (''DATE_OF_BIRTH'', ''date_of_birth''), (''LICENSE_NUMBER'', ''license_number''),
      (''EXPIRATION_DATE'', ''expiration_date''), (''STATE'', ''state'')]"
| "code_required ID_CARD =
     [(''FIRST_NAME'', ''first_name''), (''LAST_NAME'', ''last_name''),
      (''DATE_OF_BIRTH'', ''date_of_birth''), (''ID_NUMBER'', ''id_number''),
      (''EXPIRATION_DATE'', ''expiration_date'')]"
| "code_required (OTHER_TYPE t) =
     [(''FIRST_NAME'', ''first_name''), (''LAST_NAME'', ''last_name''),
      (''DATE_OF_BIRTH'', ''date_of_birth'')]"

text \<open>The required fields in the words of the specification: four common fields for
  every document type, then the additions of the type.\<close>

fun claimed_required :: "DocumentType \<Rightarrow> (string \<times> string) list" where
  "claimed_required dt =
     [(''FIRST_NAME'', ''first_name''), (''LAST_NAME'', ''last_name''),
      (''DATE_OF_BIRTH'', ''date_of_birth''), (''EXPIRATION_DATE'', ''expiration_date'')] @
     (case dt of
        PASSPORT \<Rightarrow>
          [(''PASSPORT_NUMBER'', ''passport_number''), (''NATIONALITY'', ''nationality'')]
      | DRIVERS_LICENSE \<Rightarrow> [(''LICENSE_NUMBER'', ''license_number''), (''STATE'', ''state'')]
      | ID_CARD \<Rightarrow> [(''ID_NUMBER'', ''id_number'')]
      | OTHER_TYPE t \<Rightarrow> [])"

text \<open>A format rule on one number field: the field must be there, non-empty, and
  satisfy the test.\<close>

definition number_rule ::
    "ExtractedData \<Rightarrow> string \<Rightarrow> (string \<Rightarrow> bool) \<Rightarrow> string \<Rightarrow> ValidationResult" where
  "number_rule data k ok msg =
     (case data k of
        None \<Rightarrow> invalid msg
      | Some e \<Rightarrow> if field_value e \<noteq> [] \<and> ok (field_value e) then valid else invalid msg)"

text \<open>The three rules in the order of the specification, the first failure winning,
  over a given table of required fields.\<close>

definition rule_validate ::
    "(DocumentType \<Rightarrow> (string \<times> string) list) \<Rightarrow> Clock \<Rightarrow> DocumentType \<Rightarrow> ExtractedData
      \<Rightarrow> ValidationResult" where
  "rule_validate required clk dt data =
     (let missing = map fst (filter (\<lambda>(name, k). absent data k) (required dt)) in
      if missing \<noteq> []
      then invalid (''Missing required fields: '' @ join '', '' missing)
      else if (case data ''expiration_date'' of
                 None \<Rightarrow> False
               | Some e \<Rightarrow> field_value e \<noteq> [] \<and>
                   (case parse clk (field_value e) of None \<Rightarrow> False | Some t \<Rightarrow> t < now clk))
      then invalid ''Document has expired''
      else (case dt of
              PASSPORT \<Rightarrow>
                number_rule data ''passport_number''
                  (\<lambda>s. 6 \<le> length s \<and> length s \<le> 9 \<and>
                       set s \<subseteq> set ''ABCDEFGHIJKLMNOPQRSTUVWXYZ0123456789'')
                  ''Invalid passport number format''
            | DRIVERS_LICENSE \<Rightarrow>
                number_rule data ''license_number'' (\<lambda>s. 5 \<le> length s)
                  ''Invalid license number format''
            | ID_CARD \<Rightarrow>
                number_rule data ''id_number'' (\<lambda>s. 5 \<le> length s) ''Invalid ID number format''
            | OTHER_TYPE t \<Rightarrow> valid))"

text \<open>A clock at 2024-01-01 whose parser knows two dates, and sample extracted data.\<close>

definition example_clock :: Clock where
  "example_clock =
     \<lparr>now = 1704067200000,
      parse = (\<lambda>s. if s = ''2030-01-01'' then Some 1893456000000
                    else if s = ''2020-01-01'' then Some 1577836800000 else None)\<rparr>"

definition entry :: "string \<Rightarrow> real \<Rightarrow> ExtractedField" where
  "entry v c = \<lparr>field_value = v, field_confidence = Some c\<rparr>"

definition names_only :: ExtractedData where
  "names_only =
     [''first_name'' \<mapsto> entry ''John'' 99.5, ''last_name'' \<mapsto> entry ''Doe'' 99.2,
      ''date_of_birth'' \<mapsto> entry ''1980-01-01'' 98.7]"

definition passport_data :: ExtractedData where
  "passport_data =
     names_only(''passport_number'' \<mapsto> entry ''AB123456'' 97.9,
       ''expiration_date'' \<mapsto> entry ''2030-01-01'' 98.1,
       ''nationality'' \<mapsto> entry ''USA'' 98.5)"

subsection \<open>Scores\<close>

text \<open>The mean as the code computes it, in double arithmetic: the values are added from
  the left, starting from 0, and the sum is divided by their number; 0 for no value.\<close>

definition double_mean :: "real list \<Rightarrow> real" where
  "double_mean xs =
     (if xs = [] then 0 else double_div (foldl double_add 0 xs) (real (length xs)))"

text \<open>The signals that contribute to the liveness score of a face, in the order the
  code looks at them: the three measured values when present and not zero, 100 for an
  acceptable pose, 100 for sunglasses detected as absent.\<close>

definition liveness_signals :: "FaceDetail \<Rightarrow> real list" where
  "liveness_signals f =
     (case eyesOpen_confidence f of None \<Rightarrow> [] | Some c \<Rightarrow> if c = 0 then [] else [c]) @
     (case quality_brightness f of None \<Rightarrow> [] | Some b \<Rightarrow> if b = 0 then [] else [b]) @
     (case quality_sharpness f of None \<Rightarrow> [] | Some s \<Rightarrow> if s = 0 then [] else [s]) @
     (if isPoseAcceptable f then [100] else []) @
     (if sunglasses_value f = Some False then [100] else [])"

subsection \<open>Sample faces and a Rekognition stub\<close>

definition attr :: "bool \<Rightarrow> real \<Rightarrow> BoolAttribute option" where
  "attr v c = Some \<lparr>Value = Some v, AttrConfidence = Some c\<rparr>"

definition face ::
    "real \<Rightarrow> real \<Rightarrow> real \<Rightarrow> BoolAttribute option \<Rightarrow> BoolAttribute option \<Rightarrow> FaceDetail" where
  "face brightness sharpness angle eyes shades =
     \<lparr>FaceBoundingBox = None, FaceLandmarks = None,
      Quality = Some \<lparr>Brightness = Some brightness, Sharpness = Some sharpness\<rparr>,
      FacePose = Some \<lparr>Pitch = Some angle, Roll = Some angle, Yaw = Some angle\<rparr>,
      EyesOpen = eyes, MouthOpen = None, Eyeglasses = None, Sunglasses = shades,
      Beard = None, Emotions = None\<rparr>"

definition five_signal_face :: FaceDetail where
  "five_signal_face = face 60 70 5 (attr True 50) (attr False 99)"

definition good_face :: FaceDetail where
  "good_face = face 90 86 5 (attr True 99) (attr False 99)"

definition closed_eyes_face :: FaceDetail where
  "closed_eyes_face = face 90 86 5 (attr False 99) (attr False 99)"

text \<open>A face whose exact mean is just below 80 and whose mean in doubles is 80: the
  eyes-open confidence is the double \<open>80 - 2^-46\<close>, and no sunglasses attribute is there.\<close>

definition near_eighty :: real where
  "near_eighty = 80 - 1 / 2 ^ 46"

definition rounding_face :: FaceDetail where
  "rounding_face = face 70 70 5 (attr True near_eighty) None"

text \<open>A Rekognition client that answers every detection with the same faces and every
  comparison with the same matches, as the mocked client of the test suite does.\<close>

definition always_sees :: "FaceDetail list \<Rightarrow> CompareFacesMatch list \<Rightarrow> Rekognition" where
  "always_sees faces matches =
     \<lparr>detectFaces = (\<lambda>image attributes. Inr \<lparr>FaceDetails = Some faces\<rparr>),
      compareFaces = (\<lambda>source target threshold quality.
         Inr \<lparr>FaceMatches = Some matches, UnmatchedFaces = None\<rparr>)\<rparr>"

subsection \<open>Face comparison\<close>




definition match_with :: "real \<Rightarrow> CompareFacesMatch" where
  "match_with s = \<lparr>Similarity = Some s, Face = None\<rparr>"

subsection \<open>Confidence of a document\<close>

text \<open>The confidences the code averages: those of the analyzer's fields whose value
  detection has a non-zero confidence.\<close>

definition counted_confidences :: "IdentityDocument \<Rightarrow> real list" where
  "counted_confidences document =
     map (\<lambda>f. the (value_confidence f))
       (filter (\<lambda>f. truthy_num (value_confidence f)) (document_fields document))"

text \<open>The confidences the specification averages: those of the fields that are placed
  into the extracted data, which have a field name and a non-empty value.\<close>

definition extracted_confidences :: "IdentityDocument \<Rightarrow> real list" where
  "extracted_confidences document =
     map (\<lambda>f. or_zero (value_confidence f))
       (filter (\<lambda>f. truthy_str (type_text f) \<and> truthy_str (value_text f))
          (document_fields document))"

text \<open>Sample analyzer output: a passport whose confidences add up without rounding, the
  same passport with one more field whose value is blank, and the passport of the test
  suite, whose confidences are the doubles nearest to the decimal literals written there.\<close>

definition id_field :: "string \<Rightarrow> string \<Rightarrow> real \<Rightarrow> IdentityDocumentField" where
  "id_field name v c =
     \<lparr>Type = Some \<lparr>Text = Some name, Confidence = None\<rparr>,
      ValueDetection = Some \<lparr>Text = Some v, Confidence = Some c\<rparr>\<rparr>"

definition passport_fields :: "IdentityDocumentField list" where
  "passport_fields =
     [id_field ''FIRST_NAME'' ''John'' 99, id_field ''LAST_NAME'' ''Doe'' 98,
      id_field ''DATE_OF_BIRTH'' ''1980-01-01'' 97,
      id_field ''PASSPORT_NUMBER'' ''AB123456'' 96,
      id_field ''EXPIRATION_DATE'' ''2030-01-01'' 98, id_field ''NATIONALITY'' ''USA'' 100]"

definition blank_value_fields :: "IdentityDocumentField list" where
  "blank_value_fields = passport_fields @ [id_field ''MIDDLE_NAME'' [] 7]"

definition test_suite_confidences :: "real list" where
  "test_suite_confidences = map to_double [99.5, 99.2, 98.7, 97.9, 98.1, 98.5]"

definition test_suite_fields :: "IdentityDocumentField list" where
  "test_suite_fields =
     map2 (\<lambda>(name, v) c. id_field name v c)
       [(''FIRST_NAME'', ''John''), (''LAST_NAME'', ''Doe''),
        (''DATE_OF_BIRTH'', ''1980-01-01''), (''PASSPORT_NUMBER'', ''AB123456''),
        (''EXPIRATION_DATE'', ''2030-01-01''), (''NATIONALITY'', ''USA'')]
       test_suite_confidences"

definition document_of :: "IdentityDocumentField list \<Rightarrow> IdentityDocument" where
  "document_of fs = \<lparr>IdentityDocumentFields = Some fs\<rparr>"

definition textract_returns :: "IdentityDocumentField list \<Rightarrow> Textract" where
  "textract_returns fs = (\<lambda>image. Inr \<lparr>IdentityDocuments = Some [document_of fs]\<rparr>)"

subsection \<open>Error kinds, sample worlds and records\<close>

text \<open>The error kinds of the specification. Every validation failure of the services is
  thrown as a \<open>BadRequestException\<close>.\<close>

datatype error_kind = ValidationError | NotFoundError | OtherError

fun kind :: "exception \<Rightarrow> error_kind" where
  "kind (BadRequestException m) = ValidationError"
| "kind (NotFoundException m) = NotFoundError"
| "kind (Error m) = OtherError"

text \<open>The collaborators of a request: Textract returning one document with the given
  fields, Rekognition seeing the given faces and matches, the sample clock.\<close>

definition sample_world ::
    "IdentityDocumentField list \<Rightarrow> FaceDetail list \<Rightarrow> CompareFacesMatch list \<Rightarrow> World" where
  "sample_world fs faces matches =
     \<lparr>textract = textract_returns fs, rekognition = always_sees faces matches,
      clock = example_clock\<rparr>"

text \<open>Collaborators that throw.\<close>

definition textract_down :: Textract where
  "textract_down = (\<lambda>image. Inl (Error ''AWS Service Error''))"

definition rekognition_down :: Rekognition where
  "rekognition_down =
     \<lparr>detectFaces = (\<lambda>image attributes. Inl (Error ''Rekognition unavailable'')),
      compareFaces = (\<lambda>source target threshold quality.
         Inl (Error ''Rekognition unavailable''))\<rparr>"

text \<open>A record as \<^verbatim>\<open>startVerification\<close> creates it, the record left by a document
  step that found no field, and the result of a comparison with one match of similarity
  95.5.\<close>

definition in_progress_record :: Verification where
  "in_progress_record = create ''user123'' PASSPORT IN_PROGRESS"

definition failed_record :: Verification where
  "failed_record =
     in_progress_record\<lparr>status := FAILED,
       failureReason := Some (''Missing required fields: FIRST_NAME, LAST_NAME, '' @
         ''DATE_OF_BIRTH, PASSPORT_NUMBER, EXPIRATION_DATE, NATIONALITY'')\<rparr>"

definition good_match :: FaceMatchResult where
  "good_match =
     \<lparr>isMatch = True, confidence = 95.5, details = BestMatchDetails None None None None\<rparr>"

definition close_match :: CompareFacesMatch where
  "close_match = match_with 95.5"

text \<open>Three worlds: the analyzer finds no field in the document; everything is in order;
  the selfie scores below the liveness threshold.\<close>

definition no_document :: World where
  "no_document = sample_world [] [good_face] [close_match]"

definition all_good :: World where
  "all_good = sample_world passport_fields [good_face] [close_match]"

definition not_live :: World where
  "not_live = sample_world passport_fields [five_signal_face] [close_match]"

text \<open>The face step of \<^verbatim>\<open>verifyFace\<close> passes on a selfie when the liveness detection
  returns a live result and the comparison with the placeholder image returns a match.\<close>

definition face_step_passes :: "Rekognition \<Rightarrow> Buffer \<Rightarrow> bool" where
  "face_step_passes client selfie =
     (case fst (detectLiveness client selfie) of
        Inl e \<Rightarrow> False
      | Inr l \<Rightarrow>
          isLive l \<and>
          (case fst (verifyFaceMatch client [] selfie) of Inl e \<Rightarrow> False | Inr m \<Rightarrow> isMatch m))"

section \<open>Document rules\<close>

lemma upper_or_digit_iff:
  "upper_or_digit c = (c \<in> set ''ABCDEFGHIJKLMNOPQRSTUVWXYZ0123456789'')"
  by (cases c) (simp add: upper_or_digit_def; fail)

lemma passport_regex_test_iff:
  "passport_regex_test s =
     (6 \<le> length s \<and> length s \<le> 9 \<and> set s \<subseteq> set ''ABCDEFGHIJKLMNOPQRSTUVWXYZ0123456789'')"
  unfolding passport_regex_test_def list_all_iff upper_or_digit_iff by blast

lemma not_truthy_value_of: "(\<not> truthy_str (value_of data k)) = absent data k"
  by (simp add: value_of_def absent_def split: option.splits)

lemma lower_names:
  "map toLowerCase (getRequiredFields PASSPORT) = map snd (code_required PASSPORT)"
  "map toLowerCase (getRequiredFields DRIVERS_LICENSE) = map snd (code_required DRIVERS_LICENSE)"
  "map toLowerCase (getRequiredFields ID_CARD) = map snd (code_required ID_CARD)"
  "map toLowerCase (getRequiredFields (OTHER_TYPE t)) = map snd (code_required (OTHER_TYPE t))"
  by (simp_all add: commonFields_def toLowerCase_def toLowerCase_char_def char_of_def
      bit_Suc_0_iff)

lemma required_names: "map fst (code_required dt) = getRequiredFields dt"
  by (cases dt) (simp_all add: commonFields_def)

lemma required_keys: "map snd (code_required dt) = map toLowerCase (getRequiredFields dt)"
  by (cases dt) (simp_all only: lower_names)

lemma filter_pairs:
  "map fst ps = ns \<Longrightarrow> map snd ps = map f ns \<Longrightarrow>
   map fst (filter (\<lambda>(name, k). P k) ps) = filter (\<lambda>n. P (f n)) ns"
  by (induction ps arbitrary: ns) auto

lemma missingFields_eq:
  "missingFields dt data = map fst (filter (\<lambda>(name, k). absent data k) (code_required dt))"
  unfolding missingFields_def not_truthy_value_of
  by (rule filter_pairs [OF required_names required_keys, symmetric])

lemma expired_eq:
  "expired clk data =
     (case data ''expiration_date'' of
        None \<Rightarrow> False
      | Some e \<Rightarrow> field_value e \<noteq> [] \<and>
          (case parse clk (field_value e) of None \<Rightarrow> False | Some t \<Rightarrow> t < now clk))"
  by (simp add: expired_def value_of_def split: option.splits)

lemma validatePassport_eq:
  "validatePassport data =
     number_rule data ''passport_number''
       (\<lambda>s. 6 \<le> length s \<and> length s \<le> 9 \<and>
            set s \<subseteq> set ''ABCDEFGHIJKLMNOPQRSTUVWXYZ0123456789'')
       ''Invalid passport number format''"
  unfolding validatePassport_def number_rule_def passport_regex_test_iff [symmetric]
  by (simp add: value_of_def split: option.splits)

lemma validateDriversLicense_eq:
  "validateDriversLicense data =
     number_rule data ''license_number'' (\<lambda>s. 5 \<le> length s) ''Invalid license number format''"
  unfolding validateDriversLicense_def number_rule_def
  by (auto simp: value_of_def split: option.splits)

lemma validateIdCard_eq:
  "validateIdCard data =
     number_rule data ''id_number'' (\<lambda>s. 5 \<le> length s) ''Invalid ID number format''"
  unfolding validateIdCard_def number_rule_def
  by (auto simp: value_of_def split: option.splits)

text \<open>
  C4, as amended. For every clock, document type and extracted-field map,
  \<^verbatim>\<open>validateDocumentAuthenticity\<close> applies three rules in order, the first failure
  winning: (a) the missing-field check over the required list of the type, which is first
  name, last name, date of birth, then for a passport the passport number, the expiration
  date and the nationality, for a drivers license the license number, the expiration date
  and the state, for an id card the id number and the expiration date, and for any other
  type nothing more (no expiration date); it fails with all missing names joined by a comma
  and a space; (b) the expiration check, which fails only if an expiration date is present,
  parses and is strictly before the current time; (c) the format check of the type: a
  passport number of six to nine characters among \<open>A-Z\<close> and \<open>0-9\<close>, a license number or an
  id number of at least five characters; any other type passes it.
\<close>

theorem validation_order:
  "validateDocumentAuthenticity clk dt data = rule_validate code_required clk dt data"
  unfolding validateDocumentAuthenticity_def rule_validate_def missingFields_eq expired_eq
    validatePassport_eq validateDriversLicense_eq validateIdCard_eq
  by (simp add: Let_def split: DocumentType.splits)

theorem validation_order_witness:
  "validateDocumentAuthenticity example_clock PASSPORT passport_data = valid \<and>
   validateDocumentAuthenticity example_clock PASSPORT
       (passport_data(''expiration_date'' \<mapsto> entry ''2020-01-01'' 98.1,
          ''passport_number'' \<mapsto> entry ''123'' 97.9)) =
     invalid ''Document has expired'' \<and>
   validateDocumentAuthenticity example_clock PASSPORT
       (passport_data(''passport_number'' \<mapsto> entry ''123'' 97.9)) =
     invalid ''Invalid passport number format'' \<and>
   validateDocumentAuthenticity example_clock PASSPORT names_only =
     invalid ''Missing required fields: PASSPORT_NUMBER, EXPIRATION_DATE, NATIONALITY''"
  unfolding validation_order
  by (simp add: rule_validate_def absent_def number_rule_def passport_data_def names_only_def
      entry_def example_clock_def)

text \<open>
  C4 as stated fails for a document type outside the enum: the stated rule requires an
  expiration date of every type and would reject data without one, the code accepts it.
\<close>

theorem unknown_type_counterexample:
  "validateDocumentAuthenticity example_clock (OTHER_TYPE ''visa'') names_only = valid \<and>
   rule_validate claimed_required example_clock (OTHER_TYPE ''visa'') names_only =
     invalid ''Missing required fields: EXPIRATION_DATE''"
  by (simp add: validateDocumentAuthenticity_def missingFields_def commonFields_def
      toLowerCase_def toLowerCase_char_def char_of_def bit_Suc_0_iff value_of_def expired_def
      rule_validate_def absent_def names_only_def entry_def example_clock_def)

section \<open>Liveness score\<close>

lemma liveness_factors_signals:
  "liveness_factors f =
     (foldl double_add 0 (liveness_signals f), length (liveness_signals f))"
  by (simp add: liveness_factors_def liveness_signals_def add_factor_def Let_def
      split: option.splits)

lemma length_liveness_signals: "length (liveness_signals f) \<le> 5"
  by (simp add: liveness_signals_def split: option.splits)

lemma calculateLivenessScore_mean:
  "calculateLivenessScore f = double_mean (liveness_signals f)"
  by (simp add: calculateLivenessScore_def liveness_factors_signals double_mean_def)

lemma detectLiveness_single:
  "detectFaces client buf [''ALL''] = Inr response \<Longrightarrow> FaceDetails response = Some [f] \<Longrightarrow>
   fst (detectLiveness client buf) = Inr (liveness_result f)"
  by (simp add: detectLiveness_def detectLiveness_try_def)

lemmas face_eval =
  face_def attr_def eyesOpen_confidence_def quality_brightness_def quality_sharpness_def
  isPoseAcceptable_def sunglasses_value_def

lemma five_signals: "liveness_signals five_signal_face = [50, 60, 70, 100, 100]"
  by (simp add: liveness_signals_def five_signal_face_def face_eval)

lemma good_signals: "liveness_signals good_face = [99, 90, 86, 100, 100]"
  by (simp add: liveness_signals_def good_face_def face_eval)

lemma near_eighty_nonzero: "near_eighty \<noteq> 0"
  by (simp add: near_eighty_def)

lemma rounding_signals: "liveness_signals rounding_face = [near_eighty, 70, 70, 100]"
  by (simp add: liveness_signals_def rounding_face_def face_eval near_eighty_nonzero)

text \<open>Three means in double arithmetic. The third is where rounding shows: the exact sum
  of the first two values, \<open>150 - 2^-46\<close>, lies halfway between two doubles and rounds to
  150, so the mean is 80 although the exact mean is below 80.\<close>

lemma double_mean_five: "double_mean [50, 60, 70, 100, 100] = 76"
  by code_simp

lemma double_mean_good: "double_mean [99, 90, 86, 100, 100] = 95"
  by code_simp

lemma double_mean_rounding:
  "double_mean [near_eighty, 70, 70, 100] = 80 \<and>
   (near_eighty + 70 + 70 + 100) / 4 = 80 - 1 / 2 ^ 48"
  by code_simp

text \<open>
  C6, as amended. For every single detected face, the liveness score is the mean of at
  most five contributing signals, taken in this order: the eyes-open confidence, the
  brightness and the sharpness (each when present and not zero), 100 when the pose is
  acceptable, and 100 when sunglasses are explicitly detected as absent. The mean is
  computed in double arithmetic: the signals are added one after the other to a sum that
  starts at 0 and the sum is divided by their number, each result rounded to the nearest
  double. The score is 0 when no signal is available; and \<^verbatim>\<open>detectLiveness\<close> on a
  response with exactly that face returns \<open>isLive\<close> true iff the score is at least 80,
  with the score as its confidence.
\<close>

theorem liveness_score_mean:
  "calculateLivenessScore f = double_mean (liveness_signals f) \<and>
   length (liveness_signals f) \<le> 5 \<and>
   (detectFaces client buf [''ALL''] = Inr response \<and> FaceDetails response = Some [f] \<longrightarrow>
      (\<exists>r. fst (detectLiveness client buf) = Inr r \<and>
           isLive r = (calculateLivenessScore f \<ge> 80) \<and>
           liveness_confidence r = calculateLivenessScore f))"
  by (simp add: calculateLivenessScore_mean length_liveness_signals detectLiveness_single
      liveness_result_def QUALITY_THRESHOLD_def Let_def)

theorem liveness_score_mean_witness:
  "calculateLivenessScore five_signal_face = 76 \<and>
   (\<exists>r. fst (detectLiveness (always_sees [five_signal_face] []) []) = Inr r \<and> \<not> isLive r) \<and>
   calculateLivenessScore rounding_face = 80 \<and>
   (\<exists>r. fst (detectLiveness (always_sees [rounding_face] []) []) = Inr r \<and> isLive r)"
proof -
  from liveness_score_mean [of five_signal_face] have
    "calculateLivenessScore five_signal_face = double_mean (liveness_signals five_signal_face)"
    by blast
  then have score: "calculateLivenessScore five_signal_face = 76"
    by (simp only: five_signals double_mean_five)
  from liveness_score_mean [of rounding_face] have
    "calculateLivenessScore rounding_face = double_mean (liveness_signals rounding_face)"
    by blast
  then have rounded: "calculateLivenessScore rounding_face = 80"
    by (simp only: rounding_signals double_mean_rounding)
  have sees: "detectFaces (always_sees [f] []) [] [''ALL''] = Inr \<lparr>FaceDetails = Some [f]\<rparr> \<and>
      FaceDetails \<lparr>FaceDetails = Some [f]\<rparr> = Some [f]" for f
    by (simp add: always_sees_def)
  from liveness_score_mean [of five_signal_face "always_sees [five_signal_face] []" "[]"
      "\<lparr>FaceDetails = Some [five_signal_face]\<rparr>"] sees [of five_signal_face]
  obtain r where "fst (detectLiveness (always_sees [five_signal_face] []) []) = Inr r"
    "isLive r = (calculateLivenessScore five_signal_face \<ge> 80)"
    by blast
  with score have not_live:
    "\<exists>r. fst (detectLiveness (always_sees [five_signal_face] []) []) = Inr r \<and> \<not> isLive r"
    by simp
  from liveness_score_mean [of rounding_face "always_sees [rounding_face] []" "[]"
      "\<lparr>FaceDetails = Some [rounding_face]\<rparr>"] sees [of rounding_face]
  obtain r' where "fst (detectLiveness (always_sees [rounding_face] []) []) = Inr r'"
    "isLive r' = (calculateLivenessScore rounding_face \<ge> 80)"
    by blast
  with rounded have live:
    "\<exists>r. fst (detectLiveness (always_sees [rounding_face] []) []) = Inr r \<and> isLive r"
    by simp
  from score rounded not_live live show ?thesis by blast
qed

text \<open>
  C6 as stated fails: on a face where all five signals are available the code counts
  five factors, not at most four, and divides their sum by five.
\<close>

theorem five_signals_counterexample:
  "snd (liveness_factors five_signal_face) = 5 \<and>
   \<not> snd (liveness_factors five_signal_face) \<le> 4 \<and>
   fst (liveness_factors five_signal_face) = 50 + 60 + 70 + 100 + 100 \<and>
   calculateLivenessScore five_signal_face = 76"
proof -
  have "foldl double_add 0 [50, 60, 70, 100, 100] = 380"
    by code_simp
  then show ?thesis
    by (simp add: calculateLivenessScore_mean liveness_factors_signals five_signals
        double_mean_five)
qed

text \<open>
  C10. For every face detail, the liveness score does not depend on the boolean eyes-open
  verdict: two faces that differ only in that verdict have the same score. When the
  eyes-open attribute carries a nonzero confidence, whatever the verdict, that confidence
  is the first of the signals the score averages: the score is the mean (in double
  arithmetic) of that confidence followed by the signals the face has without its
  eyes-open attribute. A face confidently detected with closed eyes contributes its full
  eyes-open confidence.
\<close>

theorem eyes_open_value_ignored:
  "calculateLivenessScore (f\<lparr>EyesOpen := Some \<lparr>Value = v, AttrConfidence = c\<rparr>\<rparr>) =
   calculateLivenessScore (f\<lparr>EyesOpen := Some \<lparr>Value = v', AttrConfidence = c\<rparr>\<rparr>) \<and>
   (c = Some x \<and> x \<noteq> 0 \<longrightarrow>
      calculateLivenessScore (f\<lparr>EyesOpen := Some \<lparr>Value = v, AttrConfidence = c\<rparr>\<rparr>) =
        double_mean (x # liveness_signals (f\<lparr>EyesOpen := None\<rparr>)) \<and>
      liveness_factors (f\<lparr>EyesOpen := Some \<lparr>Value = v, AttrConfidence = c\<rparr>\<rparr>) =
        (foldl double_add 0 (x # liveness_signals (f\<lparr>EyesOpen := None\<rparr>)),
         1 + snd (liveness_factors (f\<lparr>EyesOpen := None\<rparr>))))"
proof -
  have same: "liveness_signals (f\<lparr>EyesOpen := Some \<lparr>Value = v, AttrConfidence = c\<rparr>\<rparr>) =
      liveness_signals (f\<lparr>EyesOpen := Some \<lparr>Value = v', AttrConfidence = c\<rparr>\<rparr>)"
    by (simp add: liveness_signals_def eyesOpen_confidence_def quality_brightness_def
        quality_sharpness_def isPoseAcceptable_def sunglasses_value_def)
  have first: "c = Some x \<Longrightarrow> x \<noteq> 0 \<Longrightarrow>
      liveness_signals (f\<lparr>EyesOpen := Some \<lparr>Value = v, AttrConfidence = c\<rparr>\<rparr>) =
        x # liveness_signals (f\<lparr>EyesOpen := None\<rparr>)"
    by (simp add: liveness_signals_def eyesOpen_confidence_def quality_brightness_def
        quality_sharpness_def isPoseAcceptable_def sunglasses_value_def)
  show ?thesis
    unfolding calculateLivenessScore_mean liveness_factors_signals
    using same first by simp
qed

theorem eyes_open_value_ignored_witness:
  "calculateLivenessScore closed_eyes_face = calculateLivenessScore good_face \<and>
   calculateLivenessScore closed_eyes_face = 95 \<and>
   liveness_signals (good_face\<lparr>EyesOpen := None\<rparr>) = [90, 86, 100, 100]"
proof -
  have rest: "liveness_signals (good_face\<lparr>EyesOpen := None\<rparr>) = [90, 86, 100, 100]"
    by (simp add: liveness_signals_def good_face_def face_eval)
  have closed: "closed_eyes_face =
      good_face\<lparr>EyesOpen := Some \<lparr>Value = Some False, AttrConfidence = Some 99\<rparr>\<rparr>"
    and opened: "good_face =
      good_face\<lparr>EyesOpen := Some \<lparr>Value = Some True, AttrConfidence = Some 99\<rparr>\<rparr>"
    by (simp_all add: closed_eyes_face_def good_face_def face_def attr_def)
  note inst = eyes_open_value_ignored [where f = good_face and v = "Some False"
      and c = "Some 99" and v' = "Some True" and x = 99]
  from inst have "calculateLivenessScore closed_eyes_face = calculateLivenessScore good_face"
    using closed opened by simp
  moreover from inst have "calculateLivenessScore closed_eyes_face = 95"
    using closed by (simp add: rest double_mean_good)
  ultimately show ?thesis using rest by blast
qed

section \<open>Face comparison\<close>






section \<open>Confidence score of a document\<close>

lemma fold_confidence_step:
  "fold confidence_step fs (t, n) =
     (foldl double_add t (map (\<lambda>f. the (value_confidence f))
                            (filter (\<lambda>f. truthy_num (value_confidence f)) fs)),
      n + length (filter (\<lambda>f. truthy_num (value_confidence f)) fs))"
  by (induction fs arbitrary: t n) (simp_all add: confidence_step_def)

lemma calculateConfidenceScore_mean:
  "calculateConfidenceScore document = double_mean (counted_confidences document)"
  by (simp add: calculateConfidenceScore_def fold_confidence_step counted_confidences_def
      double_mean_def)

lemma verifyDocument_Inr:
  assumes "verifyDocument tx clk dt buf = Inr result"
  shows "\<exists>response document rest. tx buf = Inr response \<and>
           IdentityDocuments response = Some (document # rest) \<and>
           isValid (validateDocumentAuthenticity clk dt (parseDocumentFields document)) \<and>
           result = \<lparr>doc_isValid = True, extractedData = parseDocumentFields document,
                     doc_confidenceScore = calculateConfidenceScore document\<rparr>"
  using assms
  by (auto simp: verifyDocument_def verifyDocument_try_def Let_def
      split: sum.splits option.splits list.splits if_splits)

lemma startVerification_eq:
  "startVerification tx clk repo uid dt buf =
    (case verifyDocument tx clk dt buf of
       Inl e \<Rightarrow> (Inl e, repo @ [fail_with e (create uid dt IN_PROGRESS)])
     | Inr r \<Rightarrow>
         if \<not> doc_isValid r
         then (Inl (BadRequestException ''Document verification failed''),
               repo @ [(create uid dt IN_PROGRESS)\<lparr>documentData := Some (extractedData r),
                  confidenceScore := Some (doc_confidenceScore r), status := FAILED,
                  failureReason := Some ''Document verification failed''\<rparr>])
         else (Inr (length repo, (create uid dt IN_PROGRESS)\<lparr>
                  documentData := Some (extractedData r),
                  confidenceScore := Some (doc_confidenceScore r)\<rparr>),
               repo @ [(create uid dt IN_PROGRESS)\<lparr>documentData := Some (extractedData r),
                  confidenceScore := Some (doc_confidenceScore r)\<rparr>]))"
  by (simp add: startVerification_def startVerification_try_def insert_row_def save_def
      fail_with_def Let_def split: sum.splits)

lemma startVerification_Inr:
  assumes "fst (startVerification tx clk repo uid dt buf) = Inr (key, v)"
  shows "\<exists>result. verifyDocument tx clk dt buf = Inr result \<and> key = length repo \<and>
           snd (startVerification tx clk repo uid dt buf) = repo @ [v] \<and>
           v = (create uid dt IN_PROGRESS)\<lparr>documentData := Some (extractedData result),
                 confidenceScore := Some (doc_confidenceScore result)\<rparr>"
  using assms
  by (auto simp: startVerification_eq split: sum.splits if_splits)

lemma startVerification_Inl:
  assumes "fst (startVerification tx clk repo uid dt buf) = Inl e"
  shows "snd (startVerification tx clk repo uid dt buf) =
           repo @ [fail_with e (create uid dt IN_PROGRESS)]"
proof (cases "verifyDocument tx clk dt buf")
  case (Inl e')
  with assms show ?thesis by (simp add: startVerification_eq)
next
  case (Inr result)
  from verifyDocument_Inr [OF Inr] have "doc_isValid result" by auto
  with Inr assms show ?thesis by (simp add: startVerification_eq)
qed

lemmas document_eval =
  validateDocumentAuthenticity_def missingFields_def commonFields_def
  toLowerCase_def toLowerCase_char_def char_of_def bit_Suc_0_iff value_of_def expired_def
  parseDocumentFields_def parse_field_def document_fields_def document_of_def
  passport_fields_def id_field_def type_text_def value_text_def value_confidence_def
  example_clock_def validatePassport_def passport_regex_test_def upper_or_digit_def
  valid_def invalid_def

lemma passport_fields_valid:
  "isValid (validateDocumentAuthenticity example_clock PASSPORT
      (parseDocumentFields (document_of passport_fields)))"
  by (simp add: document_eval)

lemma blank_value_fields_parsed:
  "parseDocumentFields (document_of blank_value_fields) =
   parseDocumentFields (document_of passport_fields)"
  by (simp add: parseDocumentFields_def document_fields_def document_of_def
      blank_value_fields_def parse_field_def id_field_def value_text_def)

lemma passport_started:
  "fs = passport_fields \<or> fs = blank_value_fields \<Longrightarrow>
   startVerification (textract_returns fs) example_clock [] ''user123'' PASSPORT [] =
     (Inr (0, (create ''user123'' PASSPORT IN_PROGRESS)\<lparr>
        documentData := Some (parseDocumentFields (document_of passport_fields)),
        confidenceScore := Some (calculateConfidenceScore (document_of fs))\<rparr>),
      [(create ''user123'' PASSPORT IN_PROGRESS)\<lparr>
        documentData := Some (parseDocumentFields (document_of passport_fields)),
        confidenceScore := Some (calculateConfidenceScore (document_of fs))\<rparr>])"
  using passport_fields_valid
  by (auto simp: startVerification_eq verifyDocument_def verifyDocument_try_def
      textract_returns_def blank_value_fields_parsed)

lemma counted_passport_fields:
  "counted_confidences (document_of passport_fields) = [99, 98, 97, 96, 98, 100]"
  by (simp add: counted_confidences_def document_fields_def document_of_def
      passport_fields_def id_field_def value_confidence_def)

lemma counted_blank_value_fields:
  "counted_confidences (document_of blank_value_fields) =
     [99, 98, 97, 96, 98, 100, 7]"
  by (simp add: counted_confidences_def document_fields_def document_of_def
      blank_value_fields_def passport_fields_def id_field_def value_confidence_def)

lemma extracted_blank_value_fields:
  "extracted_confidences (document_of blank_value_fields) =
     [99, 98, 97, 96, 98, 100]"
  by (simp add: extracted_confidences_def document_fields_def document_of_def
      blank_value_fields_def passport_fields_def id_field_def value_confidence_def
      type_text_def value_text_def)

lemma counted_id_fields:
  "length nvs = length cs \<Longrightarrow> list_all (\<lambda>c. c \<noteq> 0) cs \<Longrightarrow>
   counted_confidences (document_of (map2 (\<lambda>(name, v) c. id_field name v c) nvs cs)) = cs"
  by (induction nvs cs rule: list_induct2)
    (auto simp: counted_confidences_def document_fields_def document_of_def id_field_def
      value_confidence_def)

text \<open>Means in double arithmetic. With the confidences of the test suite the sum is
  rounded at every addition and the quotient once more: the result is the double printed
  as 98.64999999999999, not the exact mean 98.65.\<close>

lemma double_mean_passport: "double_mean [99, 98, 97, 96, 98, 100] = 98"
  by code_simp

lemma double_mean_blank: "double_mean [99, 98, 97, 96, 98, 100, 7] = 85"
  by code_simp

lemma test_suite_nonzero:
  "length test_suite_confidences = 6 \<and> list_all (\<lambda>c. c \<noteq> 0) test_suite_confidences"
  by code_simp

lemma double_mean_test_suite:
  "double_mean test_suite_confidences = 6941876613126553 / 70368744177664"
  by code_simp

lemma counted_test_suite:
  "counted_confidences (document_of test_suite_fields) = test_suite_confidences"
  unfolding test_suite_fields_def
  by (rule counted_id_fields) (simp_all add: test_suite_nonzero)

text \<open>
  C7, as amended. For every identity document returned by the analyzer, the confidence
  score is the mean of the confidences of exactly those fields whose value detection
  carries a non-zero confidence, whether or not the field is placed into the document
  data, and 0 when there is none; the mean is computed in double arithmetic, the
  confidences added in the analyzer's order to a sum that starts at 0 and the sum divided
  by their number. When the document step succeeds, the record (as returned and as stored)
  holds the parsed fields of the first identity document of the response and that score;
  when it fails, the stored record has neither document data nor a confidence score.
\<close>

theorem confidence_score_mean:
  "calculateConfidenceScore document = double_mean (counted_confidences document) \<and>
   (fst (startVerification tx clk repo uid dt buf) = Inr (key, v) \<longrightarrow>
      (\<exists>response document rest. tx buf = Inr response \<and>
           IdentityDocuments response = Some (document # rest) \<and>
           snd (startVerification tx clk repo uid dt buf) ! key = v \<and>
           documentData v = Some (parseDocumentFields document) \<and>
           confidenceScore v = Some (double_mean (counted_confidences document)))) \<and>
   (fst (startVerification tx clk repo uid dt buf) = Inl e \<longrightarrow>
      documentData (snd (startVerification tx clk repo uid dt buf) ! length repo) = None \<and>
      confidenceScore (snd (startVerification tx clk repo uid dt buf) ! length repo) = None)"
proof (intro conjI impI)
  show "calculateConfidenceScore document = double_mean (counted_confidences document)"
    by (rule calculateConfidenceScore_mean)
next
  assume "fst (startVerification tx clk repo uid dt buf) = Inr (key, v)"
  from startVerification_Inr [OF this] obtain result where
    r: "verifyDocument tx clk dt buf = Inr result" and
    k: "key = length repo" and
    s: "snd (startVerification tx clk repo uid dt buf) = repo @ [v]" and
    v: "v = (create uid dt IN_PROGRESS)\<lparr>documentData := Some (extractedData result),
                 confidenceScore := Some (doc_confidenceScore result)\<rparr>"
    by blast
  from verifyDocument_Inr [OF r] obtain response d rest where
    "tx buf = Inr response" "IdentityDocuments response = Some (d # rest)"
    "result = \<lparr>doc_isValid = True, extractedData = parseDocumentFields d,
                     doc_confidenceScore = calculateConfidenceScore d\<rparr>"
    by blast
  with v k s show "\<exists>response document rest. tx buf = Inr response \<and>
           IdentityDocuments response = Some (document # rest) \<and>
           snd (startVerification tx clk repo uid dt buf) ! key = v \<and>
           documentData v = Some (parseDocumentFields document) \<and>
           confidenceScore v = Some (double_mean (counted_confidences document))"
    by (simp add: calculateConfidenceScore_mean)
next
  assume a: "fst (startVerification tx clk repo uid dt buf) = Inl e"
  from startVerification_Inl [OF a]
  show "documentData (snd (startVerification tx clk repo uid dt buf) ! length repo) = None"
    by (simp add: fail_with_def create_def)
  from startVerification_Inl [OF a]
  show "confidenceScore (snd (startVerification tx clk repo uid dt buf) ! length repo) = None"
    by (simp add: fail_with_def create_def)
qed

theorem confidence_score_mean_witness:
  "calculateConfidenceScore (document_of test_suite_fields) =
     6941876613126553 / 70368744177664 \<and>
   calculateConfidenceScore (document_of passport_fields) = 98 \<and>
   (\<exists>v. fst (startVerification (textract_returns passport_fields) example_clock []
              ''user123'' PASSPORT []) = Inr (0, v) \<and>
        confidenceScore v = Some 98) \<and>
   confidenceScore (snd (startVerification (textract_returns []) example_clock []
              ''user123'' PASSPORT []) ! 0) = None"
proof -
  let ?v = "(create ''user123'' PASSPORT IN_PROGRESS)\<lparr>
        documentData := Some (parseDocumentFields (document_of passport_fields)),
        confidenceScore := Some (calculateConfidenceScore (document_of passport_fields))\<rparr>"
  have started: "fst (startVerification (textract_returns passport_fields) example_clock []
      ''user123'' PASSPORT []) = Inr (0, ?v)"
    by (simp add: passport_started)
  have failed: "fst (startVerification (textract_returns []) example_clock []
      ''user123'' PASSPORT []) =
     Inl (BadRequestException (''Missing required fields: FIRST_NAME, LAST_NAME, '' @
         ''DATE_OF_BIRTH, PASSPORT_NUMBER, EXPIRATION_DATE, NATIONALITY''))"
    by (simp add: startVerification_eq verifyDocument_def verifyDocument_try_def
        textract_returns_def document_eval)
  from confidence_score_mean [of "document_of test_suite_fields"] have
    suite: "calculateConfidenceScore (document_of test_suite_fields) =
      6941876613126553 / 70368744177664"
    by (simp only: counted_test_suite double_mean_test_suite)
  note inst = confidence_score_mean [of "document_of passport_fields"
      "textract_returns passport_fields" example_clock "[]" "''user123''" PASSPORT "[]" 0 ?v]
  from inst have score: "calculateConfidenceScore (document_of passport_fields) = 98"
    by (simp only: counted_passport_fields double_mean_passport)
  from inst started obtain response document rest where
    "textract_returns passport_fields [] = Inr response"
    "IdentityDocuments response = Some (document # rest)"
    "confidenceScore ?v = Some (double_mean (counted_confidences document))"
    by blast
  then have "confidenceScore ?v = Some 98"
    by (auto simp: textract_returns_def counted_passport_fields double_mean_passport)
  with started have stored: "\<exists>v. fst (startVerification (textract_returns passport_fields)
      example_clock [] ''user123'' PASSPORT []) = Inr (0, v) \<and> confidenceScore v = Some 98"
    by blast
  from confidence_score_mean [where tx = "textract_returns []" and clk = example_clock
      and repo = "[]" and uid = "''user123''" and dt = PASSPORT and buf = "[]"] failed
  have unset: "confidenceScore (snd (startVerification (textract_returns []) example_clock []
      ''user123'' PASSPORT []) ! 0) = None"
    by simp
  from suite score stored unset show ?thesis by blast
qed

text \<open>
  C7 as stated fails: a field with a blank value is not placed into the document data but
  its confidence is averaged. The six extracted fields have mean 98, the record gets 85.
\<close>

theorem blank_value_counterexample:
  "fst (startVerification (textract_returns blank_value_fields) example_clock []
          ''user123'' PASSPORT []) =
     Inr (0, (create ''user123'' PASSPORT IN_PROGRESS)\<lparr>
        documentData := Some (parseDocumentFields (document_of blank_value_fields)),
        confidenceScore := Some 85\<rparr>) \<and>
   parseDocumentFields (document_of blank_value_fields) ''middle_name'' = None \<and>
   double_mean (extracted_confidences (document_of blank_value_fields)) = 98"
proof -
  have "calculateConfidenceScore (document_of blank_value_fields) = 85"
    by (simp only: calculateConfidenceScore_mean counted_blank_value_fields
        double_mean_blank)
  moreover have "parseDocumentFields (document_of passport_fields) ''middle_name'' = None"
    by (simp add: parseDocumentFields_def parse_field_def document_fields_def
        document_of_def passport_fields_def id_field_def type_text_def value_text_def
        toLowerCase_def toLowerCase_char_def char_of_def bit_Suc_0_iff)
  moreover have "double_mean (extracted_confidences (document_of blank_value_fields)) = 98"
    by (simp only: extracted_blank_value_fields double_mean_passport)
  ultimately show ?thesis
    using passport_started [of blank_value_fields] by (simp add: blank_value_fields_parsed)
qed

section \<open>Orchestrator\<close>

lemma verifyFace_absent:
  "\<not> key < length repo \<Longrightarrow>
   verifyFace client repo key buf = (Inl (BadRequestException ''Verification not found''), repo, [])"
  by (simp add: verifyFace_def findOne_def)

lemma verifyFace_found:
  assumes "key < length repo"
  shows "verifyFace client repo key buf =
    (case detectLiveness client buf of
       (Inl e, sent1) \<Rightarrow> (Inl e, repo[key := fail_with e (repo ! key)], sent1)
     | (Inr l, sent1) \<Rightarrow>
         if \<not> isLive l
         then (Inl (BadRequestException ''Liveness check failed''),
               repo[key := (repo ! key)\<lparr>status := FAILED,
                             failureReason := Some ''Liveness check failed''\<rparr>], sent1)
         else (case verifyFaceMatch client [] buf of
                 (Inl e, sent2) \<Rightarrow> (Inl e, repo[key := fail_with e (repo ! key)], sent1 @ sent2)
               | (Inr m, sent2) \<Rightarrow>
                   if \<not> isMatch m
                   then (Inl (BadRequestException ''Face match failed''),
                         repo[key := (repo ! key)\<lparr>faceMatchResult := Some m, status := FAILED,
                                       failureReason := Some ''Face match failed''\<rparr>],
                         sent1 @ sent2)
                   else (Inr (key, (repo ! key)\<lparr>faceMatchResult := Some m,
                                     status := COMPLETED\<rparr>),
                         repo[key := (repo ! key)\<lparr>faceMatchResult := Some m,
                                       status := COMPLETED\<rparr>],
                         sent1 @ sent2)))"
  using assms
  by (simp add: verifyFace_def verifyFace_try_def findOne_def save_def fail_with_def Let_def
      split: prod.splits sum.splits)

text \<open>
  C8, as amended. For every verification id not present in the record store,
  \<^verbatim>\<open>verifyFace\<close> fails with a \<open>BadRequestException\<close> whose message is
  \<open>Verification not found\<close> (the error kind of the validation failures, not a kind of its
  own), sends nothing to the analyzer and leaves the store as it is;
  \<^verbatim>\<open>getVerificationStatus\<close> on such an id fails with the message
  \<open>Verification not found\<close>, on a present id it returns the current record unmodified, and
  it never changes the store.
\<close>

theorem unknown_id:
  "(\<not> key < length repo \<longrightarrow>
      verifyFace client repo key buf =
        (Inl (BadRequestException ''Verification not found''), repo, []) \<and>
      (\<exists>e. getVerificationStatus repo key = Inl e \<and> message e = ''Verification not found'')) \<and>
   (key < length repo \<longrightarrow> getVerificationStatus repo key = Inr (key, repo ! key)) \<and>
   handle w (GetVerificationStatus key) repo = repo"
  by (simp add: verifyFace_absent getVerificationStatus_def findOne_def)

theorem unknown_id_witness:
  "verifyFace (always_sees [good_face] []) [] 0 [] =
     (Inl (BadRequestException ''Verification not found''), [], []) \<and>
   (\<exists>e. getVerificationStatus [] 0 = Inl e \<and> message e = ''Verification not found'') \<and>
   getVerificationStatus [create ''user123'' PASSPORT IN_PROGRESS] 0 =
     Inr (0, create ''user123'' PASSPORT IN_PROGRESS)"
  using unknown_id [of 0 "[]" "always_sees [good_face] []" "[]"]
    unknown_id [of 0 "[create ''user123'' PASSPORT IN_PROGRESS]"]
  by simp

text \<open>
  C8 as stated fails: the failure for an unknown id is a \<open>BadRequestException\<close>, the
  class of the validation failures (such as the one for a selfie without a face), not an
  error of a distinct not-found kind.
\<close>

theorem not_found_kind_counterexample:
  "fst (verifyFace (always_sees [] []) [] 0 []) =
     Inl (BadRequestException ''Verification not found'') \<and>
   getVerificationStatus [] 0 = Inl (BadRequestException ''Verification not found'') \<and>
   fst (verifyFace (always_sees [] []) [in_progress_record] 0 []) =
     Inl (BadRequestException ''No face detected in the image'') \<and>
   kind (BadRequestException ''Verification not found'') = ValidationError \<and>
   kind (BadRequestException ''Verification not found'') \<noteq> NotFoundError"
  by (simp add: verifyFace_absent verifyFace_found getVerificationStatus_def findOne_def
      detectLiveness_def detectLiveness_try_def always_sees_def)

text \<open>
  C9. For every execution of \<^verbatim>\<open>verifyFace\<close> on a present record in which the liveness
  check returns not live, the call fails with \<open>Liveness check failed\<close>, the stored record
  is the old one with status failed and that failure reason, and the only command sent to
  the analyzer is the liveness detection: no face comparison is sent.
\<close>

theorem liveness_failure:
  assumes "key < length repo"
    and "fst (detectLiveness client selfie) = Inr r" and "\<not> isLive r"
  shows "verifyFace client repo key selfie =
           (Inl (BadRequestException ''Liveness check failed''),
            repo[key := (repo ! key)\<lparr>status := FAILED,
                          failureReason := Some ''Liveness check failed''\<rparr>],
            [DetectFacesCommand selfie [''ALL'']]) \<and>
         status (fst (snd (verifyFace client repo key selfie)) ! key) = FAILED \<and>
         failureReason (fst (snd (verifyFace client repo key selfie)) ! key) =
           Some ''Liveness check failed'' \<and>
         \<not> list_ex is_CompareFaces (snd (snd (verifyFace client repo key selfie)))"
proof -
  have sent: "snd (detectLiveness client selfie) = [DetectFacesCommand selfie [''ALL'']]"
    by (simp add: detectLiveness_def)
  from assms(2) sent have "detectLiveness client selfie =
      (Inr r, [DetectFacesCommand selfie [''ALL'']])"
    by (cases "detectLiveness client selfie") simp
  with assms(1,3) have "verifyFace client repo key selfie =
           (Inl (BadRequestException ''Liveness check failed''),
            repo[key := (repo ! key)\<lparr>status := FAILED,
                          failureReason := Some ''Liveness check failed''\<rparr>],
            [DetectFacesCommand selfie [''ALL'']])"
    by (simp add: verifyFace_found)
  with assms(1) show ?thesis by (simp add: is_CompareFaces_def)
qed


theorem liveness_failure_witness:
  "verifyFace (always_sees [five_signal_face] [close_match]) [in_progress_record] 0 [] =
     (Inl (BadRequestException ''Liveness check failed''),
      [in_progress_record\<lparr>status := FAILED, failureReason := Some ''Liveness check failed''\<rparr>],
      [DetectFacesCommand [] [''ALL'']])"
proof -
  let ?client = "always_sees [five_signal_face] [close_match]"
  have present: "0 < length [in_progress_record]" by simp
  have detected: "fst (detectLiveness ?client []) = Inr (liveness_result five_signal_face)"
    by (simp add: detectLiveness_def detectLiveness_try_def always_sees_def)
  have "calculateLivenessScore five_signal_face = 76"
    by (simp only: calculateLivenessScore_mean five_signals double_mean_five)
  then have not_live: "\<not> isLive (liveness_result five_signal_face)"
    by (simp add: liveness_result_def QUALITY_THRESHOLD_def)
  from liveness_failure [OF present detected not_live] show ?thesis by simp
qed



lemma startVerification_failed:
  assumes "fst (startVerification tx clk repo uid dt buf) = Inl e"
  shows "\<exists>v. snd (startVerification tx clk repo uid dt buf) = repo @ [v] \<and>
           status v = FAILED \<and> failureReason v = Some (message e)"
  using assms
  by (auto simp: startVerification_eq fail_with_def split: sum.splits if_splits)

lemma verifyFace_failed:
  assumes "key < length repo" and "fst (verifyFace client repo key selfie) = Inl e"
  shows "\<exists>v. fst (snd (verifyFace client repo key selfie)) = repo[key := v] \<and>
           status v = FAILED \<and> failureReason v = Some (message e)"
  using assms
  by (auto simp: verifyFace_found fail_with_def split: prod.splits sum.splits if_splits)

text \<open>
  C2. A failure raised by the document step during \<^verbatim>\<open>startVerification\<close>, or by the
  liveness detection or the face match during \<^verbatim>\<open>verifyFace\<close>, is the error the
  orchestrator surfaces; and whenever \<^verbatim>\<open>startVerification\<close> or \<^verbatim>\<open>verifyFace\<close> (on a
  present record) fails with an error, the stored record has status failed and its failure
  reason is the message of that error.
\<close>

theorem failure_recorded:
  "(verifyDocument tx clk dt buf = Inl e \<longrightarrow>
      fst (startVerification tx clk repo uid dt buf) = Inl e) \<and>
   (fst (startVerification tx clk repo uid dt buf) = Inl e \<longrightarrow>
      length (snd (startVerification tx clk repo uid dt buf)) = length repo + 1 \<and>
      status (snd (startVerification tx clk repo uid dt buf) ! length repo) = FAILED \<and>
      failureReason (snd (startVerification tx clk repo uid dt buf) ! length repo) =
        Some (message e)) \<and>
   (key < length repo \<longrightarrow>
      (fst (detectLiveness client selfie) = Inl e \<longrightarrow>
         fst (verifyFace client repo key selfie) = Inl e) \<and>
      (fst (detectLiveness client selfie) = Inr l \<and> isLive l \<and>
       fst (verifyFaceMatch client [] selfie) = Inl e \<longrightarrow>
         fst (verifyFace client repo key selfie) = Inl e) \<and>
      (fst (verifyFace client repo key selfie) = Inl e \<longrightarrow>
         status (fst (snd (verifyFace client repo key selfie)) ! key) = FAILED \<and>
         failureReason (fst (snd (verifyFace client repo key selfie)) ! key) =
           Some (message e)))"
proof (intro conjI impI)
  assume "verifyDocument tx clk dt buf = Inl e"
  then show "fst (startVerification tx clk repo uid dt buf) = Inl e"
    by (simp add: startVerification_eq)
next
  assume a: "fst (startVerification tx clk repo uid dt buf) = Inl e"
  from startVerification_failed [OF a] obtain v where
    v: "snd (startVerification tx clk repo uid dt buf) = repo @ [v]"
      "status v = FAILED" "failureReason v = Some (message e)"
    by blast
  from v show "length (snd (startVerification tx clk repo uid dt buf)) = length repo + 1"
    by simp
  from v show "status (snd (startVerification tx clk repo uid dt buf) ! length repo) = FAILED"
    by simp
  from v show "failureReason (snd (startVerification tx clk repo uid dt buf) ! length repo) =
      Some (message e)"
    by simp
next
  assume "key < length repo" "fst (detectLiveness client selfie) = Inl e"
  then show "fst (verifyFace client repo key selfie) = Inl e"
    by (cases "detectLiveness client selfie") (simp add: verifyFace_found)
next
  assume "key < length repo"
    "fst (detectLiveness client selfie) = Inr l \<and> isLive l \<and>
     fst (verifyFaceMatch client [] selfie) = Inl e"
  then show "fst (verifyFace client repo key selfie) = Inl e"
    by (cases "detectLiveness client selfie"; cases "verifyFaceMatch client [] selfie")
      (simp add: verifyFace_found)
next
  assume k: "key < length repo" and a: "fst (verifyFace client repo key selfie) = Inl e"
  from verifyFace_failed [OF k a] obtain v where
    v: "fst (snd (verifyFace client repo key selfie)) = repo[key := v]"
      "status v = FAILED" "failureReason v = Some (message e)"
    by blast
  from v k show "status (fst (snd (verifyFace client repo key selfie)) ! key) = FAILED"
    by simp
  from v k show "failureReason (fst (snd (verifyFace client repo key selfie)) ! key) =
      Some (message e)"
    by simp
qed


theorem failure_recorded_witness:
  "fst (startVerification textract_down example_clock [] ''user123'' PASSPORT []) =
     Inl (BadRequestException ''AWS Service Error'') \<and>
   status (snd (startVerification textract_down example_clock [] ''user123'' PASSPORT []) ! 0) =
     FAILED \<and>
   failureReason
     (snd (startVerification textract_down example_clock [] ''user123'' PASSPORT []) ! 0) =
     Some ''AWS Service Error'' \<and>
   fst (verifyFace rekognition_down [in_progress_record] 0 []) =
     Inl (BadRequestException ''Rekognition unavailable'') \<and>
   status (fst (snd (verifyFace rekognition_down [in_progress_record] 0 [])) ! 0) = FAILED \<and>
   failureReason (fst (snd (verifyFace rekognition_down [in_progress_record] 0 [])) ! 0) =
     Some ''Rekognition unavailable''"
proof -
  have doc: "verifyDocument textract_down example_clock PASSPORT [] =
      Inl (BadRequestException ''AWS Service Error'')"
    by (simp add: verifyDocument_def verifyDocument_try_def textract_down_def)
  have live: "fst (detectLiveness rekognition_down []) =
      Inl (BadRequestException ''Rekognition unavailable'')"
    by (simp add: detectLiveness_def detectLiveness_try_def rekognition_down_def)
  have present: "0 < length [in_progress_record]" by simp
  note start = failure_recorded [where tx = textract_down and clk = example_clock
      and dt = PASSPORT and buf = "[]" and repo = "[]" and uid = "''user123''"
      and e = "BadRequestException ''AWS Service Error''"]
  note face = failure_recorded [where key = 0 and repo = "[in_progress_record]"
      and client = rekognition_down and selfie = "[]"
      and e = "BadRequestException ''Rekognition unavailable''"]
  from start doc have
    "fst (startVerification textract_down example_clock [] ''user123'' PASSPORT []) =
       Inl (BadRequestException ''AWS Service Error'')"
    by blast
  moreover from this start have
    "status (snd (startVerification textract_down example_clock [] ''user123'' PASSPORT [])
       ! 0) = FAILED \<and>
     failureReason (snd (startVerification textract_down example_clock [] ''user123''
       PASSPORT []) ! 0) = Some ''AWS Service Error''"
    by simp
  moreover from face present live have
    f: "fst (verifyFace rekognition_down [in_progress_record] 0 []) =
       Inl (BadRequestException ''Rekognition unavailable'')"
    by blast
  moreover from f face present have
    "status (fst (snd (verifyFace rekognition_down [in_progress_record] 0 [])) ! 0) = FAILED \<and>
     failureReason (fst (snd (verifyFace rekognition_down [in_progress_record] 0 [])) ! 0) =
       Some ''Rekognition unavailable''"
    by simp
  ultimately show ?thesis by blast
qed



lemma startVerification_appends:
  "\<exists>v. snd (startVerification tx clk repo uid dt buf) = repo @ [v] \<and>
       faceMatchResult v = None"
  by (simp add: startVerification_eq fail_with_def create_def split: sum.splits)

lemma verifyFace_updates:
  assumes "key < length repo"
  shows "\<exists>v. fst (snd (verifyFace client repo key buf)) = repo[key := v] \<and>
           terminal (status v) \<and>
           (faceMatchResult v = faceMatchResult (repo ! key) \<or>
            (\<exists>l m. fst (detectLiveness client buf) = Inr l \<and> isLive l \<and>
                   fst (verifyFaceMatch client [] buf) = Inr m \<and>
                   faceMatchResult v = Some m))"
  using assms
  by (cases "detectLiveness client buf"; cases "verifyFaceMatch client [] buf")
    (auto simp: verifyFace_found fail_with_def terminal_def split: sum.splits)

lemma handle_terminal:
  assumes "key < length repo" and "terminal (status (repo ! key))"
  shows "key < length (handle w r repo) \<and> terminal (status (handle w r repo ! key))"
proof (cases r)
  case (StartVerification uid dt buf)
  obtain v where "snd (startVerification (textract w) (clock w) repo uid dt buf) = repo @ [v]"
    using startVerification_appends by blast
  with assms StartVerification show ?thesis by (simp add: nth_append)
next
  case (VerifyFace k buf)
  show ?thesis
  proof (cases "k < length repo")
    case True
    from verifyFace_updates [OF True] obtain v where
      "fst (snd (verifyFace (rekognition w) repo k buf)) = repo[k := v]" "terminal (status v)"
      by blast
    with assms VerifyFace True show ?thesis by (simp add: nth_list_update)
  next
    case False
    with assms VerifyFace show ?thesis by (simp add: verifyFace_absent)
  qed
next
  case (GetVerificationStatus k)
  with assms show ?thesis by simp
qed

lemma verifyFace_status:
  assumes "key < length repo"
  shows "status (fst (snd (verifyFace client repo key selfie)) ! key) =
           (if face_step_passes client selfie then COMPLETED else FAILED)"
  using assms
  by (cases "detectLiveness client selfie"; cases "verifyFaceMatch client [] selfie")
    (auto simp: verifyFace_found face_step_passes_def fail_with_def split: sum.splits)

text \<open>
  C1, as amended. For every record and every sequence of the three operations, once the
  status of the record is completed or failed it stays completed or failed: it never
  returns to pending or in progress. \<^verbatim>\<open>verifyFace\<close> does not read the status: on a
  record that is already completed or failed it runs the face step again and leaves the
  record completed when the liveness detection returns a live result and the comparison a
  match, and failed otherwise.
\<close>

theorem terminal_status_stays:
  assumes "key < length repo"
    and "status (repo ! key) = COMPLETED \<or> status (repo ! key) = FAILED"
  shows "key < length (run rs repo) \<and>
         (status (run rs repo ! key) = COMPLETED \<or> status (run rs repo ! key) = FAILED) \<and>
         status (run rs repo ! key) \<noteq> PENDING \<and> status (run rs repo ! key) \<noteq> IN_PROGRESS \<and>
         status (fst (snd (verifyFace client repo key selfie)) ! key) =
           (if face_step_passes client selfie then COMPLETED else FAILED)"
proof -
  have "key < length repo \<Longrightarrow> terminal (status (repo ! key)) \<Longrightarrow>
      key < length (run rs repo) \<and> terminal (status (run rs repo ! key))"
  proof (induction rs arbitrary: repo)
    case Nil
    then show ?case by simp
  next
    case (Cons a rs)
    obtain w r where a: "a = (w, r)" by (cases a)
    from handle_terminal [OF Cons.prems] have
      "key < length (handle w r repo) \<and> terminal (status (handle w r repo ! key))" .
    with Cons.IH [of "handle w r repo"] a show ?case by simp
  qed
  with assms verifyFace_status [OF assms(1), of client selfie] show ?thesis
    by (auto simp: terminal_def)
qed

lemma no_document_fails:
  "snd (startVerification (textract_returns []) example_clock [] ''user123'' PASSPORT []) =
     [failed_record]"
  by (simp add: startVerification_eq verifyDocument_def verifyDocument_try_def
      textract_returns_def document_eval fail_with_def failed_record_def
      in_progress_record_def)

lemma good_face_live:
  "detectLiveness (always_sees [good_face] ms) buf =
     (Inr (liveness_result good_face), [DetectFacesCommand buf [''ALL'']])"
  by (simp add: detectLiveness_def detectLiveness_try_def always_sees_def)

lemma good_face_isLive: "isLive (liveness_result good_face)"
  by (simp add: liveness_result_def QUALITY_THRESHOLD_def calculateLivenessScore_mean
      good_signals double_mean_good)

lemma good_face_matches:
  "fst (verifyFaceMatch (always_sees [good_face] [close_match]) doc selfie) = Inr good_match"
  by (simp add: close_match_def verifyFaceMatch_def verifyFaceMatch_try_def detectFaceQuality_def
      always_sees_def good_face_def face_def attr_def isQualityAcceptable_def
      isPoseAcceptable_def valid_def match_result_def match_with_def SIMILARITY_THRESHOLD_def
      good_match_def)

lemma good_face_completes:
  "key < length repo \<Longrightarrow>
   fst (snd (verifyFace (always_sees [good_face] [close_match]) repo key buf)) =
     repo[key := (repo ! key)\<lparr>faceMatchResult := Some good_match, status := COMPLETED\<rparr>]"
  using good_face_matches [of "[]" buf] good_face_isLive
  by (cases "verifyFaceMatch (always_sees [good_face] [close_match]) [] buf")
    (simp add: verifyFace_found good_face_live good_match_def)

lemma five_signal_face_fails:
  "key < length repo \<Longrightarrow>
   fst (snd (verifyFace (always_sees [five_signal_face] ms) repo key buf)) =
     repo[key := (repo ! key)\<lparr>status := FAILED,
                   failureReason := Some ''Liveness check failed''\<rparr>]"
  by (simp add: verifyFace_found detectLiveness_def detectLiveness_try_def always_sees_def
      liveness_result_def QUALITY_THRESHOLD_def calculateLivenessScore_mean five_signals
      double_mean_five)

lemma good_face_passes: "face_step_passes (always_sees [good_face] [close_match]) buf"
  using good_face_isLive good_face_matches [of "[]" buf]
  by (simp add: face_step_passes_def good_face_live good_match_def)

lemma five_signal_face_not_live:
  "\<not> face_step_passes (always_sees [five_signal_face] ms) buf"
  by (simp add: face_step_passes_def detectLiveness_def detectLiveness_try_def
      always_sees_def liveness_result_def QUALITY_THRESHOLD_def calculateLivenessScore_mean
      five_signals double_mean_five)

theorem terminal_status_stays_witness:
  "0 < length [failed_record] \<and> status ([failed_record] ! 0) = FAILED \<and>
   status (run [(all_good, VerifyFace 0 []), (all_good, GetVerificationStatus 0),
                (all_good, StartVerification ''user456'' PASSPORT [])] [failed_record] ! 0) \<noteq>
     PENDING \<and>
   status (run [(all_good, VerifyFace 0 []), (all_good, GetVerificationStatus 0),
                (all_good, StartVerification ''user456'' PASSPORT [])] [failed_record] ! 0) \<noteq>
     IN_PROGRESS \<and>
   status (fst (snd (verifyFace (always_sees [good_face] [close_match]) [failed_record] 0 []))
     ! 0) = COMPLETED \<and>
   status (fst (snd (verifyFace (always_sees [five_signal_face] [close_match])
     [failed_record] 0 [])) ! 0) = FAILED"
proof -
  have present: "0 < length [failed_record]" by simp
  have failed: "status ([failed_record] ! 0) = FAILED"
    by (simp add: failed_record_def)
  then have terminal: "status ([failed_record] ! 0) = COMPLETED \<or>
      status ([failed_record] ! 0) = FAILED"
    by blast
  note inst = terminal_status_stays [OF present terminal]
  from inst [where client = "always_sees [good_face] [close_match]" and selfie = "[]"]
    good_face_passes
  have completed: "status (fst (snd (verifyFace (always_sees [good_face] [close_match])
      [failed_record] 0 [])) ! 0) = COMPLETED"
    by simp
  from inst [where client = "always_sees [five_signal_face] [close_match]" and selfie = "[]"]
    five_signal_face_not_live
  have again: "status (fst (snd (verifyFace (always_sees [five_signal_face] [close_match])
      [failed_record] 0 [])) ! 0) = FAILED"
    by simp
  from inst [where rs = "[(all_good, VerifyFace 0 []), (all_good, GetVerificationStatus 0),
      (all_good, StartVerification ''user456'' PASSPORT [])]"] present failed completed again
  show ?thesis by blast
qed

text \<open>
  C1 as stated fails: a record that failed in the document step is completed by a later
  \<^verbatim>\<open>verifyFace\<close>, and a completed record is failed by one more.
\<close>

theorem failed_record_revisited_counterexample:
  "status (run [(no_document, StartVerification ''user123'' PASSPORT [])] [] ! 0) = FAILED \<and>
   status (run [(no_document, StartVerification ''user123'' PASSPORT []),
                (all_good, VerifyFace 0 [])] [] ! 0) = COMPLETED \<and>
   status (run [(no_document, StartVerification ''user123'' PASSPORT []),
                (all_good, VerifyFace 0 []), (not_live, VerifyFace 0 [])] [] ! 0) = FAILED"
  by (simp add: no_document_def all_good_def not_live_def sample_world_def no_document_fails
      good_face_completes five_signal_face_fails failed_record_def)









end
